theory Spec2Isabelle
  imports Complex_Main "HOL-Library.Word" "HOL-Library.Sublist"
begin

unbundle bit_operations_syntax

section \<open>Kernel types\<close>

text \<open>
  The kernel's bit masks (\<open>int flag\<close>, \<open>int label\<close>, \<open>shader_flag\<close>) are 32-bit words.
  The bounce counters and the RNG offset are C \<open>int\<close>s that the kernel only ever
  increments by small steps from zero; they are modelled as unbounded integers (signed
  overflow is undefined in C and is not reached below the configured bounce maxima).
  A \<open>float\<close> is modelled by the real number it denotes: rounding, infinities and NaN are
  outside the model.
\<close>

type_synonym flags = "32 word"

datatype float3 = make_float3 (f3x: real) (f3y: real) (f3z: real)

text \<open>
  The enumerations and macros of \<open>kernel_types.h\<close> (and the closure classification macros
  of \<open>svm_types.h\<close>) are not among the sources. Their values are parameters of the
  model, collected in one record: the \<open>PathRayFlag\<close> bits, the \<open>ClosureLabel\<close> bits, the
  \<open>ShaderDataFlag\<close> bits used here, the RNG stride \<open>PRNG_BOUNCE_NUM\<close>, the closure
  type of the transparent BSDF and the macro \<open>CLOSURE_IS_BSDF\<close>. Two switches of the
  build are parameters as well: whether \<open>__VOLUME__\<close> is defined, and whether
  \<open>kernel_assert\<close> checks its condition (debug kernels) or expands to nothing.
\<close>

record kernel_types =
  PATH_RAY_CAMERA :: flags
  PATH_RAY_REFLECT :: flags
  PATH_RAY_TRANSMIT :: flags
  PATH_RAY_DIFFUSE :: flags
  PATH_RAY_GLOSSY :: flags
  PATH_RAY_SINGULAR :: flags
  PATH_RAY_TRANSPARENT :: flags
  PATH_RAY_VOLUME_SCATTER :: flags
  PATH_RAY_MIS_SKIP :: flags
  PATH_RAY_DIFFUSE_ANCESTOR :: flags
  PATH_RAY_STORE_SHADOW_INFO :: flags
  LABEL_NONE :: flags
  LABEL_TRANSMIT :: flags
  LABEL_REFLECT :: flags
  LABEL_DIFFUSE :: flags
  LABEL_GLOSSY :: flags
  LABEL_SINGULAR :: flags
  LABEL_TRANSPARENT :: flags
  LABEL_VOLUME_SCATTER :: flags
  SD_SHADER_OVERRIDE_BOUNCES :: flags
  SD_SHADER_HAS_ONLY_VOLUME :: flags
  PRNG_BOUNCE_NUM :: int
  CLOSURE_BSDF_TRANSPARENT_ID :: int
  CLOSURE_IS_BSDF :: "int \<Rightarrow> bool"
  defined_VOLUME :: bool
  kernel_assert_checks :: bool

text \<open>The fields of \<open>kernel_data.integrator\<close> and \<open>kernel_data.film\<close> that the modelled
  functions read.\<close>

record KernelIntegrator =
  min_bounce :: int
  max_bounce :: int
  max_diffuse_bounce :: int
  max_glossy_bounce :: int
  max_transmission_bounce :: int
  max_volume_bounce :: int
  transparent_min_bounce :: int
  transparent_max_bounce :: int
  transparent_shadows :: int

record KernelFilm =
  use_light_pass :: int

record KernelGlobals =
  integrator :: KernelIntegrator
  film :: KernelFilm

text \<open>The fields of \<open>PathState\<close> that \<open>path_state_next\<close> and
  \<open>path_state_terminate_probability\<close> read or write. Every other field of the C
  struct is in the record's extension part and is never touched.\<close>

record PathState =
  flag :: flags
  rng_offset :: int
  bounce :: int
  diffuse_bounce :: int
  glossy_bounce :: int
  transmission_bounce :: int
  transparent_bounce :: int
  volume_bounce :: int
  denoising_feature_weight :: real

text \<open>A closure: its type, its RGB weight, its sampling weight and the variant-specific
  parameters, whose layout the modelled functions never inspect.\<close>

record 'd ShaderClosure =
  type :: int
  weight :: float3
  sample_weight :: real
  data :: 'd

text \<open>The fields of \<open>ShaderData\<close> used here. \<open>closure\<close> is the fixed-capacity array,
  of which the first \<open>num_closure\<close> entries are in use.\<close>

record 'd ShaderData =
  shader_flag :: flags
  diffuse_bounces :: int
  glossy_bounces :: int
  transmission_bounces :: int
  randb_closure :: real
  closure :: "'d ShaderClosure list"
  num_closure :: nat

datatype kernel_error = AssertionFailed

section \<open>Path state (kernel\_path\_state.h)\<close>

text \<open>\<open>flag & MASK\<close> used as a C condition.\<close>

definition has_flag :: "flags \<Rightarrow> flags \<Rightarrow> bool" where
  "has_flag f m = (f AND m \<noteq> 0)"

text \<open>\<open>kernel_assert(c)\<close>: aborts when it checks and \<open>c\<close> is false, otherwise continues.\<close>

definition kernel_assert :: "kernel_types \<Rightarrow> bool \<Rightarrow> kernel_error + 'a \<Rightarrow> kernel_error + 'a" where
  "kernel_assert kt c k = (if kernel_assert_checks kt \<and> \<not> c then Inl AssertionFailed else k)"

text \<open>Lines 82-93 of \<open>path_state_next\<close>: the ray passes through a transparent surface.\<close>

definition path_state_next_transparent :: "kernel_types \<Rightarrow> KernelGlobals \<Rightarrow> 'a PathState_scheme \<Rightarrow> 'a PathState_scheme" where
  "path_state_next_transparent kt kg state =
    (let state = state\<lparr>flag := flag state OR PATH_RAY_TRANSPARENT kt\<rparr>;
         state = state\<lparr>transparent_bounce := transparent_bounce state + 1\<rparr>
     in if transparent_shadows (integrator kg) = 0
        then state\<lparr>flag := flag state OR PATH_RAY_MIS_SKIP kt\<rparr>
        else state)"

text \<open>Lines 98-104: volume scatter.\<close>

definition path_state_next_volume :: "kernel_types \<Rightarrow> 'a PathState_scheme \<Rightarrow> 'a PathState_scheme" where
  "path_state_next_volume kt state =
    (let state = state\<lparr>flag := flag state OR PATH_RAY_VOLUME_SCATTER kt\<rparr>;
         state = state\<lparr>flag := flag state AND NOT (PATH_RAY_REFLECT kt OR PATH_RAY_TRANSMIT kt
                   OR PATH_RAY_CAMERA kt OR PATH_RAY_TRANSPARENT kt OR PATH_RAY_DIFFUSE kt
                   OR PATH_RAY_GLOSSY kt OR PATH_RAY_SINGULAR kt OR PATH_RAY_MIS_SKIP kt)\<rparr>
     in state\<lparr>volume_bounce := volume_bounce state + 1\<rparr>)"

text \<open>Lines 109-125: surface reflection or transmission.\<close>

definition path_state_next_reflect_transmit ::
  "kernel_types \<Rightarrow> 'a PathState_scheme \<Rightarrow> flags \<Rightarrow> kernel_error + 'a PathState_scheme" where
  "path_state_next_reflect_transmit kt state label =
    (if has_flag label (LABEL_REFLECT kt) then
       let state = state\<lparr>flag := flag state OR PATH_RAY_REFLECT kt\<rparr>;
           state = state\<lparr>flag := flag state AND NOT (PATH_RAY_TRANSMIT kt
                     OR PATH_RAY_VOLUME_SCATTER kt OR PATH_RAY_CAMERA kt OR PATH_RAY_TRANSPARENT kt)\<rparr>
       in if has_flag label (LABEL_DIFFUSE kt)
          then Inr (state\<lparr>diffuse_bounce := diffuse_bounce state + 1\<rparr>)
          else Inr (state\<lparr>glossy_bounce := glossy_bounce state + 1\<rparr>)
     else
       kernel_assert kt (has_flag label (LABEL_TRANSMIT kt))
         (let state = state\<lparr>flag := flag state OR PATH_RAY_TRANSMIT kt\<rparr>;
              state = state\<lparr>flag := flag state AND NOT (PATH_RAY_REFLECT kt
                        OR PATH_RAY_VOLUME_SCATTER kt OR PATH_RAY_CAMERA kt OR PATH_RAY_TRANSPARENT kt)\<rparr>
          in Inr (state\<lparr>transmission_bounce := transmission_bounce state + 1\<rparr>)))"

text \<open>Lines 127-141: diffuse, glossy or singular.\<close>

definition path_state_next_scatter_type ::
  "kernel_types \<Rightarrow> 'a PathState_scheme \<Rightarrow> flags \<Rightarrow> kernel_error + 'a PathState_scheme" where
  "path_state_next_scatter_type kt state label =
    (if has_flag label (LABEL_DIFFUSE kt) then
       let state = state\<lparr>flag := flag state OR (PATH_RAY_DIFFUSE kt OR PATH_RAY_DIFFUSE_ANCESTOR kt)\<rparr>
       in Inr (state\<lparr>flag := flag state AND NOT (PATH_RAY_GLOSSY kt OR PATH_RAY_SINGULAR kt
                         OR PATH_RAY_MIS_SKIP kt)\<rparr>)
     else if has_flag label (LABEL_GLOSSY kt) then
       let state = state\<lparr>flag := flag state OR PATH_RAY_GLOSSY kt\<rparr>
       in Inr (state\<lparr>flag := flag state AND NOT (PATH_RAY_DIFFUSE kt OR PATH_RAY_SINGULAR kt
                         OR PATH_RAY_MIS_SKIP kt)\<rparr>)
     else
       kernel_assert kt (has_flag label (LABEL_SINGULAR kt))
         (let state = state\<lparr>flag := flag state OR (PATH_RAY_GLOSSY kt OR PATH_RAY_SINGULAR kt
                                 OR PATH_RAY_MIS_SKIP kt)\<rparr>
          in Inr (state\<lparr>flag := flag state AND NOT (PATH_RAY_DIFFUSE kt)\<rparr>)))"

text \<open>Lines 144-149: the RNG offset of the next bounce, and the shadow-info flag.\<close>

definition path_state_next_finish :: "kernel_types \<Rightarrow> 'a PathState_scheme \<Rightarrow> 'a PathState_scheme" where
  "path_state_next_finish kt state =
    (let state = state\<lparr>rng_offset := rng_offset state + PRNG_BOUNCE_NUM kt\<rparr>
     in if denoising_feature_weight state = 0
        then state\<lparr>flag := flag state AND NOT (PATH_RAY_STORE_SHADOW_INFO kt)\<rparr>
        else state)"

definition path_state_next ::
  "kernel_types \<Rightarrow> KernelGlobals \<Rightarrow> 'a PathState_scheme \<Rightarrow> flags \<Rightarrow> kernel_error + 'a PathState_scheme" where
  "path_state_next kt kg state label =
    (if has_flag label (LABEL_TRANSPARENT kt) then
       Inr (path_state_next_transparent kt kg state)
     else
       let state = state\<lparr>bounce := bounce state + 1\<rparr> in
       if defined_VOLUME kt \<and> has_flag label (LABEL_VOLUME_SCATTER kt) then
         Inr (path_state_next_finish kt (path_state_next_volume kt state))
       else
         (case path_state_next_reflect_transmit kt state label of
            Inl e \<Rightarrow> Inl e
          | Inr state \<Rightarrow>
              (case path_state_next_scatter_type kt state label of
                 Inl e \<Rightarrow> Inl e
               | Inr state \<Rightarrow> Inr (path_state_next_finish kt state))))"

text \<open>A path: the transitions for a sequence of sampled labels, stopping at a failed
  assertion.\<close>

fun path_state_next_all ::
  "kernel_types \<Rightarrow> KernelGlobals \<Rightarrow> 'a PathState_scheme \<Rightarrow> flags list \<Rightarrow> kernel_error + 'a PathState_scheme" where
  "path_state_next_all kt kg state [] = Inr state"
| "path_state_next_all kt kg state (label # labels) =
    (case path_state_next kt kg state label of
       Inl e \<Rightarrow> Inl e
     | Inr state' \<Rightarrow> path_state_next_all kt kg state' labels)"

text \<open>Modelled from the spec: \<open>average\<close> (of \<open>util_math.h\<close>, not among the sources) is
  the average of the three channel values of a colour.\<close>

definition average :: "float3 \<Rightarrow> real" where
  "average a = (f3x a + f3y a + f3z a) / 3"

definition path_state_terminate_probability ::
  "kernel_types \<Rightarrow> KernelGlobals \<Rightarrow> 'a PathState_scheme \<Rightarrow> 'd ShaderData \<Rightarrow> float3 \<Rightarrow> real" where
  "path_state_terminate_probability kt kg state sd throughput =
    (if has_flag (flag state) (PATH_RAY_TRANSPARENT kt) then
       (if transparent_bounce state \<ge> transparent_max_bounce (integrator kg) then 0
        else if transparent_bounce state \<le> transparent_min_bounce (integrator kg) then 1
        else average throughput)
     else
       let (max_diffuse, max_glossy, max_transmission) =
             (if has_flag (shader_flag sd) (SD_SHADER_OVERRIDE_BOUNCES kt)
              then (diffuse_bounces sd, glossy_bounces sd, transmission_bounces sd)
              else (max_diffuse_bounce (integrator kg), max_glossy_bounce (integrator kg),
                    max_transmission_bounce (integrator kg)))
       in if bounce state \<ge> max_bounce (integrator kg)
             \<or> diffuse_bounce state \<ge> max_diffuse
             \<or> glossy_bounce state \<ge> max_glossy
             \<or> (defined_VOLUME kt \<and> volume_bounce state \<ge> max_volume_bounce (integrator kg))
             \<or> transmission_bounce state \<ge> max_transmission
          then 0
          else if bounce state \<le> min_bounce (integrator kg) then 1
          else average throughput)"


text \<open>The sticky flag has a bit of its own: \<open>PATH_RAY_DIFFUSE_ANCESTOR\<close> is not zero and
  shares no bit with any flag that \<open>path_state_next\<close> clears. This is a condition on the
  enumeration of \<open>kernel_types.h\<close>, which assigns one bit to each flag.\<close>

definition diffuse_ancestor_own_bit :: "kernel_types \<Rightarrow> bool" where
  "diffuse_ancestor_own_bit kt =
     (PATH_RAY_DIFFUSE_ANCESTOR kt \<noteq> 0
      \<and> list_all (\<lambda>m. PATH_RAY_DIFFUSE_ANCESTOR kt AND m = 0)
           [PATH_RAY_CAMERA kt, PATH_RAY_REFLECT kt, PATH_RAY_TRANSMIT kt, PATH_RAY_DIFFUSE kt,
            PATH_RAY_GLOSSY kt, PATH_RAY_SINGULAR kt, PATH_RAY_TRANSPARENT kt,
            PATH_RAY_VOLUME_SCATTER kt, PATH_RAY_MIS_SKIP kt, PATH_RAY_STORE_SHADOW_INFO kt])"

text \<open>All bits of \<open>PATH_RAY_DIFFUSE_ANCESTOR\<close> are set in the state's flags.\<close>

definition diffuse_ancestor_set :: "kernel_types \<Rightarrow> 'a PathState_scheme \<Rightarrow> bool" where
  "diffuse_ancestor_set kt s =
     (flag s AND PATH_RAY_DIFFUSE_ANCESTOR kt = PATH_RAY_DIFFUSE_ANCESTOR kt)"

section \<open>Closures of a shading point (kernel\_shader.h)\<close>

text \<open>Modelled from the spec: the colour arithmetic of \<open>util_math.h\<close> (not among the
  sources) works on the three channels separately.\<close>

definition add3 :: "float3 \<Rightarrow> float3 \<Rightarrow> float3" where
  "add3 a b = make_float3 (f3x a + f3x b) (f3y a + f3y b) (f3z a + f3z b)"

definition sub3 :: "float3 \<Rightarrow> float3 \<Rightarrow> float3" where
  "sub3 a b = make_float3 (f3x a - f3x b) (f3y a - f3y b) (f3z a - f3z b)"

definition mul3 :: "float3 \<Rightarrow> float3 \<Rightarrow> float3" where
  "mul3 a b = make_float3 (f3x a * f3x b) (f3y a * f3y b) (f3z a * f3z b)"

definition max3 :: "float3 \<Rightarrow> float3 \<Rightarrow> float3" where
  "max3 a b = make_float3 (max (f3x a) (f3x b)) (max (f3y a) (f3y b)) (max (f3z a) (f3z b))"

definition min3 :: "float3 \<Rightarrow> float3 \<Rightarrow> float3" where
  "min3 a b = make_float3 (min (f3x a) (f3x b)) (min (f3y a) (f3y b)) (min (f3z a) (f3z b))"

text \<open>The closures in use, \<open>closure[0]\<close> to \<open>closure[num_closure - 1]\<close>. The array has
  room for them: \<open>num_closure\<close> never exceeds the capacity.\<close>

definition active :: "'d ShaderData \<Rightarrow> 'd ShaderClosure list" where
  "active sd = take (num_closure sd) (closure sd)"

definition sd_wf :: "'d ShaderData \<Rightarrow> bool" where
  "sd_wf sd = (num_closure sd \<le> length (closure sd))"

subsection \<open>Transparency and alpha\<close>

definition shader_bsdf_transparency :: "kernel_types \<Rightarrow> 'd ShaderData \<Rightarrow> float3" where
  "shader_bsdf_transparency kt sd =
    (if has_flag (shader_flag sd) (SD_SHADER_HAS_ONLY_VOLUME kt) then make_float3 1 1 1
     else fold (\<lambda>i eval.
                 let sc = closure sd ! i
                 in if type sc = CLOSURE_BSDF_TRANSPARENT_ID kt then add3 eval (weight sc) else eval)
               [0..<num_closure sd] (make_float3 0 0 0))"

definition shader_bsdf_alpha :: "kernel_types \<Rightarrow> 'd ShaderData \<Rightarrow> float3" where
  "shader_bsdf_alpha kt sd =
    (let alpha = sub3 (make_float3 1 1 1) (shader_bsdf_transparency kt sd);
         alpha = max3 alpha (make_float3 0 0 0);
         alpha = min3 alpha (make_float3 1 1 1)
     in alpha)"

text \<open>The weights of the transparent closures in use, for one channel.\<close>

definition transparent_weights :: "kernel_types \<Rightarrow> 'd ShaderData \<Rightarrow> (float3 \<Rightarrow> real) \<Rightarrow> real list" where
  "transparent_weights kt sd ch =
     map (\<lambda>sc. ch (weight sc))
       (filter (\<lambda>sc. type sc = CLOSURE_BSDF_TRANSPARENT_ID kt) (active sd))"

definition clamp01 :: "real \<Rightarrow> real" where
  "clamp01 v = min (max v 0) 1"

subsection \<open>Sampling a closure\<close>

text \<open>
  The closure implementations (\<open>closure/bsdf.h\<close>) and the accumulation of a
  \<open>BsdfEval\<close> (\<open>kernel_accumulate.h\<close>) are not among the sources; they are parameters.
  \<open>bsdf_sample\<close> gets the closure, the two random numbers and the current contents of
  its in-out arguments \<open>omega_in\<close>, \<open>domega_in\<close>, and returns the label, the local
  \<open>eval\<close> and the new contents of \<open>omega_in\<close>, \<open>domega_in\<close> and \<open>pdf\<close> (which
  the caller has set to 0 before). \<open>bsdf_eval\<close> returns \<open>eval\<close> and the pdf, which
  the caller has set to 0 before. \<open>'e\<close> is \<open>BsdfEval\<close>, \<open>'w\<close> is \<open>differential3\<close>.
\<close>

record ('d, 'e, 'w) closure_functions =
  bsdf_sample :: "KernelGlobals \<Rightarrow> 'd ShaderData \<Rightarrow> 'd ShaderClosure \<Rightarrow> real \<Rightarrow> real
                    \<Rightarrow> float3 \<Rightarrow> 'w \<Rightarrow> flags \<times> float3 \<times> float3 \<times> 'w \<times> real"
  bsdf_eval :: "KernelGlobals \<Rightarrow> 'd ShaderData \<Rightarrow> 'd ShaderClosure \<Rightarrow> float3 \<Rightarrow> float3 \<times> real"
  bsdf_merge :: "'d ShaderClosure \<Rightarrow> 'd ShaderClosure \<Rightarrow> bool"
  bsdf_eval_init :: "'e \<Rightarrow> int \<Rightarrow> float3 \<Rightarrow> int \<Rightarrow> 'e"
  bsdf_eval_accum :: "'e \<Rightarrow> int \<Rightarrow> float3 \<Rightarrow> real \<Rightarrow> 'e"

text \<open>What the caller of \<open>shader_bsdf_sample\<close> passes by pointer and reads back.\<close>

record ('e, 'w) sample_result =
  bsdf_eval_out :: 'e
  omega_in :: float3
  domega_in :: 'w
  pdf :: real

text \<open>One iteration of the loop of \<open>_shader_bsdf_multi_eval\<close> on
  (\<open>result_eval\<close>, \<open>sum_pdf\<close>, \<open>sum_sample_weight\<close>).\<close>

definition multi_eval_step ::
  "('d, 'e, 'w) closure_functions \<Rightarrow> kernel_types \<Rightarrow> KernelGlobals \<Rightarrow> 'd ShaderData \<Rightarrow> float3
     \<Rightarrow> int \<Rightarrow> nat \<Rightarrow> 'e \<times> real \<times> real \<Rightarrow> 'e \<times> real \<times> real" where
  "multi_eval_step fns kt kg sd om skip_bsdf i acc =
    (case acc of (result_eval, sum_pdf, sum_sample_weight) \<Rightarrow>
       if int i = skip_bsdf then acc
       else
         let sc = closure sd ! i in
         if CLOSURE_IS_BSDF kt (type sc) then
           (case bsdf_eval fns kg sd sc om of (eval, bsdf_pdf) \<Rightarrow>
              let (result_eval, sum_pdf) =
                    (if bsdf_pdf \<noteq> 0
                     then (bsdf_eval_accum fns result_eval (type sc) (mul3 eval (weight sc)) 1,
                           sum_pdf + bsdf_pdf * sample_weight sc)
                     else (result_eval, sum_pdf))
              in (result_eval, sum_pdf, sum_sample_weight + sample_weight sc))
         else acc)"

text \<open>\<open>_shader_bsdf_multi_eval\<close>: returns the new \<open>*pdf\<close> and \<open>*result_eval\<close>.\<close>

definition shader_bsdf_multi_eval ::
  "('d, 'e, 'w) closure_functions \<Rightarrow> kernel_types \<Rightarrow> KernelGlobals \<Rightarrow> 'd ShaderData \<Rightarrow> float3
     \<Rightarrow> int \<Rightarrow> 'e \<Rightarrow> real \<Rightarrow> real \<Rightarrow> real \<times> 'e" where
  "shader_bsdf_multi_eval fns kt kg sd om skip_bsdf result_eval sum_pdf sum_sample_weight =
    (case fold (multi_eval_step fns kt kg sd om skip_bsdf) [0..<num_closure sd]
            (result_eval, sum_pdf, sum_sample_weight)
     of (result_eval, sum_pdf, sum_sample_weight) \<Rightarrow>
       (if sum_sample_weight > 0 then sum_pdf / sum_sample_weight else 0, result_eval))"

text \<open>Lines 742-747: the sum of the sample weights of the BSDF closures.\<close>

definition bsdf_sample_weight_sum :: "kernel_types \<Rightarrow> 'd ShaderData \<Rightarrow> real" where
  "bsdf_sample_weight_sum kt sd =
    fold (\<lambda>sampled sum_w.
            let sc = closure sd ! sampled
            in if CLOSURE_IS_BSDF kt (type sc) then sum_w + sample_weight sc else sum_w)
         [0..<num_closure sd] 0"

text \<open>Lines 752-761: the scan for the first BSDF closure whose cumulative sample weight
  reaches \<open>r\<close>. The result is the final value of \<open>sampled\<close>: the index at which the loop
  breaks, or \<open>num_closure\<close> when it runs to the end.\<close>

function bsdf_pick :: "kernel_types \<Rightarrow> 'd ShaderData \<Rightarrow> real \<Rightarrow> nat \<Rightarrow> real \<Rightarrow> nat" where
  "bsdf_pick kt sd r sampled sum_w =
    (if sampled < num_closure sd then
       let sc = closure sd ! sampled in
       if CLOSURE_IS_BSDF kt (type sc) then
         let sum_w = sum_w + sample_weight sc
         in if r \<le> sum_w then sampled else bsdf_pick kt sd r (Suc sampled) sum_w
       else bsdf_pick kt sd r (Suc sampled) sum_w
     else sampled)"
  by pat_completeness auto
termination
  by (relation "measure (\<lambda>(kt, sd, r, sampled, sum_w). num_closure sd - sampled)") auto

declare bsdf_pick.simps [simp del]

text \<open>Lines 769-786, after a closure has been chosen. With a single closure, or none, the
  index is 0 and \<open>closure[0]\<close> is read whatever it holds.\<close>

definition shader_bsdf_sample_chosen ::
  "('d, 'e, 'w) closure_functions \<Rightarrow> kernel_types \<Rightarrow> KernelGlobals \<Rightarrow> 'd ShaderData
     \<Rightarrow> real \<Rightarrow> real \<Rightarrow> nat \<Rightarrow> ('e, 'w) sample_result \<Rightarrow> flags \<times> ('e, 'w) sample_result" where
  "shader_bsdf_sample_chosen fns kt kg sd randu randv sampled out =
    (let sc = closure sd ! sampled;
         out = out\<lparr>pdf := 0\<rparr>
     in case bsdf_sample fns kg sd sc randu randv (omega_in out) (domega_in out)
        of (label, eval, omega, domega, p) \<Rightarrow>
          let out = out\<lparr>omega_in := omega, domega_in := domega, pdf := p\<rparr> in
          if pdf out \<noteq> 0 then
            let out = out\<lparr>bsdf_eval_out := bsdf_eval_init fns (bsdf_eval_out out) (type sc)
                                              (mul3 eval (weight sc)) (use_light_pass (film kg))\<rparr>
            in if num_closure sd > 1 then
                 let sweight = sample_weight sc
                 in case shader_bsdf_multi_eval fns kt kg sd (omega_in out) (int sampled)
                           (bsdf_eval_out out) (pdf out * sweight) sweight
                    of (p', result_eval) \<Rightarrow> (label, out\<lparr>bsdf_eval_out := result_eval, pdf := p'\<rparr>)
               else (label, out)
          else (label, out))"

definition shader_bsdf_sample ::
  "('d, 'e, 'w) closure_functions \<Rightarrow> kernel_types \<Rightarrow> KernelGlobals \<Rightarrow> 'd ShaderData
     \<Rightarrow> real \<Rightarrow> real \<Rightarrow> ('e, 'w) sample_result \<Rightarrow> flags \<times> ('e, 'w) sample_result" where
  "shader_bsdf_sample fns kt kg sd randu randv out =
    (if num_closure sd > 1 then
       let sum_w = bsdf_sample_weight_sum kt sd;
           r = randb_closure sd * sum_w;
           sampled = bsdf_pick kt sd r 0 0
       in if sampled = num_closure sd then (LABEL_NONE kt, out\<lparr>pdf := 0\<rparr>)
          else shader_bsdf_sample_chosen fns kt kg sd randu randv sampled out
     else shader_bsdf_sample_chosen fns kt kg sd randu randv 0 out)"

text \<open>The sample weight of the BSDF closures with an index below \<open>k\<close>.\<close>

definition bsdf_cumulative_weight :: "kernel_types \<Rightarrow> 'd ShaderData \<Rightarrow> nat \<Rightarrow> real" where
  "bsdf_cumulative_weight kt sd k =
     sum_list (map (\<lambda>i. if CLOSURE_IS_BSDF kt (type (closure sd ! i))
                         then sample_weight (closure sd ! i) else 0) [0..<k])"

text \<open>The indices of the BSDF closures in use other than the sampled one.\<close>

definition other_bsdf_closures :: "kernel_types \<Rightarrow> 'd ShaderData \<Rightarrow> nat \<Rightarrow> nat list" where
  "other_bsdf_closures kt sd sampled =
     filter (\<lambda>i. i \<noteq> sampled \<and> CLOSURE_IS_BSDF kt (type (closure sd ! i))) [0..<num_closure sd]"

text \<open>The combination of pdfs in the specification's words: the pdf \<open>p\<close> of the sampled closure
  and the pdfs of the other BSDF closures at the direction \<open>omega\<close>, each weighted by
  its closure's sample weight, over the sum of these sample weights (0 when that sum is
  not positive).\<close>

definition weighted_average_pdf ::
  "('d, 'e, 'w) closure_functions \<Rightarrow> kernel_types \<Rightarrow> KernelGlobals \<Rightarrow> 'd ShaderData \<Rightarrow> float3
     \<Rightarrow> nat \<Rightarrow> real \<Rightarrow> real" where
  "weighted_average_pdf fns kt kg sd omega sampled p =
    (let others = other_bsdf_closures kt sd sampled;
         total = sample_weight (closure sd ! sampled)
                 + sum_list (map (\<lambda>i. sample_weight (closure sd ! i)) others);
         weighted = p * sample_weight (closure sd ! sampled)
                 + sum_list (map (\<lambda>i. snd (bsdf_eval fns kg sd (closure sd ! i) omega)
                                        * sample_weight (closure sd ! i)) others)
     in if total > 0 then weighted / total else 0)"

subsection \<open>Merging\<close>

text \<open>\<open>shader_merge_closures\<close> exists in kernels with \<open>__BRANCHED_PATH__\<close> or
  \<open>__VOLUME__\<close>. The array is modelled entry by entry, so that the entries behind
  \<open>num_closure\<close> keep what the shift leaves in them.\<close>

text \<open>Lines 629-634: the entries behind \<open>closure[j]\<close> move down by one place, in
  ascending order (\<open>scj[k] = scj[k+1]\<close>).\<close>

definition merge_shift :: "'d ShaderClosure list \<Rightarrow> nat \<Rightarrow> nat \<Rightarrow> 'd ShaderClosure list" where
  "merge_shift cl j n = fold (\<lambda>k cl. cl[j + k := cl ! (j + k + 1)]) [0..<n] cl"

text \<open>Lines 626-638: \<open>closure[j]\<close> is added to \<open>closure[i]\<close> and taken out of the array.
  The assertion \<open>num_closure >= 0\<close> cannot fail, since \<open>j < num_closure\<close> before the
  decrement.\<close>

definition merge_pair :: "nat \<Rightarrow> nat \<Rightarrow> 'd ShaderData \<Rightarrow> 'd ShaderData" where
  "merge_pair i j sd =
    (let sci = closure sd ! i;
         scj = closure sd ! j;
         sci = sci\<lparr>weight := add3 (weight sci) (weight scj)\<rparr>;
         sci = sci\<lparr>sample_weight := sample_weight sci + sample_weight scj\<rparr>;
         cl = (closure sd)[i := sci];
         size_n = num_closure sd - (j + 1);
         cl = (if size_n > 0 then merge_shift cl j size_n else cl)
     in sd\<lparr>closure := cl, num_closure := num_closure sd - 1\<rparr>)"







text \<open>The specification's words for one merge: the closure \<open>a\<close> with the weights of \<open>b\<close> added,
  a list without its entry \<open>j\<close>, and what a closure is apart from its weights. Two
  closures are merged by the code when their types are equal and \<open>bsdf_merge\<close> accepts
  them.\<close>

definition merged :: "'d ShaderClosure \<Rightarrow> 'd ShaderClosure \<Rightarrow> 'd ShaderClosure" where
  "merged a b = a\<lparr>weight := add3 (weight a) (weight b),
                  sample_weight := sample_weight a + sample_weight b\<rparr>"





section \<open>Image upload (render/image.cpp, device/device\_cpu.cpp)\<close>

text \<open>
  The image manager, the device scene and the CPU device as far as
  \<open>ImageManager::device_load_image\<close> and the functions it calls,
  \<open>file_load_image\<close> and \<open>file_load_image_generic\<close>, read and write them. Pointers
  are modelled by what they are tested for: an \<open>Image*\<close> or \<open>device_vector*\<close> that
  may be null is an option, \<open>builtin_data\<close> and \<open>device_pointer\<close> are the truth value
  of the pointer. A buffer of pixels is the list of its components, which are reals
  whatever the storage type is. Progress texts, logging and memory statistics are left
  out.
\<close>

datatype ImageDataType =
    IMAGE_DATA_TYPE_FLOAT4 | IMAGE_DATA_TYPE_BYTE4 | IMAGE_DATA_TYPE_HALF4
  | IMAGE_DATA_TYPE_FLOAT | IMAGE_DATA_TYPE_BYTE | IMAGE_DATA_TYPE_HALF
  | IMAGE_DATA_TYPE_USHORT4 | IMAGE_DATA_TYPE_USHORT

datatype InterpolationType =
    INTERPOLATION_NONE | INTERPOLATION_LINEAR | INTERPOLATION_CLOSEST
  | INTERPOLATION_CUBIC | INTERPOLATION_SMART

datatype ExtensionType = EXTENSION_REPEAT | EXTENSION_EXTEND | EXTENSION_CLIP

datatype TextureOpt_Interp = InterpSmartBicubic | InterpBicubic | InterpBilinear | InterpClosest

datatype TextureOpt_Wrap = WrapBlack | WrapClamp | WrapPeriodic

text \<open>The file formats that \<open>file_load_image\<close> is instantiated with
  (\<open>TypeDesc::FLOAT\<close>, \<open>TypeDesc::UINT8\<close>, \<open>TypeDesc::HALF\<close>,
  \<open>TypeDesc::USHORT\<close>).\<close>

datatype TypeDesc = TypeDesc_FLOAT | TypeDesc_UINT8 | TypeDesc_HALF | TypeDesc_USHORT

record InternalImageHeader =
  header_width :: nat
  header_height :: nat

text \<open>\<open>generated_data\<close> is null (\<open>None\<close>) or points to a header followed by the
  components of its \<open>float4\<close> pixels.\<close>

record Image =
  filename :: string
  builtin_data :: bool
  generated_data :: "(InternalImageHeader \<times> real list) option"
  use_alpha :: bool
  need_load :: bool
  interpolation :: InterpolationType
  extension :: ExtensionType

text \<open>The fields of an OIIO \<open>ImageSpec\<close> that are read.\<close>

record ImageSpec =
  spec_width :: nat
  spec_height :: nat
  spec_depth :: nat
  nchannels :: nat

record device_vector =
  vdata :: "real list"
  data_width :: nat
  data_height :: nat
  data_depth :: nat
  device_pointer :: bool

text \<open>A texture as \<open>kernel_tex_copy\<close> receives it from \<open>CPUDevice::tex_alloc\<close>.\<close>

record kernel_texture =
  tex_data :: "real list"
  tex_width :: nat
  tex_height :: nat
  tex_depth :: nat
  tex_interpolation :: InterpolationType
  tex_extension :: ExtensionType

record 'h OIIOTexture =
  handle :: "'h option"
  oiio_interpolation :: TextureOpt_Interp
  oiio_extension :: TextureOpt_Wrap
  is_linear :: bool

text \<open>\<open>images\<close>, \<open>pack_images\<close>, \<open>oiio_texture_system\<close> and \<open>cuda_fermi_limits\<close> are
  the manager's members; \<open>cancel\<close> is \<open>progress->get_cancel()\<close>; \<open>tex_image\<close> holds the
  arrays \<open>dscene->tex_float4_image\<close> to \<open>dscene->tex_ushort_image\<close>;
  \<open>kernel_textures\<close> are the textures bound on the device, by name; \<open>oiio_memory\<close>
  is \<open>device->oiio_memory()\<close> with its texture table.\<close>

record 'h image_state =
  images :: "ImageDataType \<Rightarrow> Image option list"
  pack_images :: bool
  oiio_texture_system :: bool
  cuda_fermi_limits :: bool
  cancel :: bool
  tex_image :: "ImageDataType \<Rightarrow> device_vector option list"
  kernel_textures :: "string \<times> nat \<Rightarrow> kernel_texture option"
  oiio_memory :: "'h OIIOTexture list option"

text \<open>
  What the functions take from code that is not among the sources, from OIIO and from
  the file system:
  \<^item> the constants \<open>TEX_IMAGE_MISSING_R\<close> to \<open>TEX_IMAGE_MISSING_A\<close>, the numeric value
    of an \<open>ImageDataType\<close>, and the scene's texture limit;
  \<^item> the type \<open>half\<close>: the conversion of a \<open>float\<close> to it and the value of
    \<open>(x * y) / 255\<close> in it;
  \<^item> \<open>uninitialized\<close>: what storage holds after it has been allocated and before it
    is written, by position;
  \<^item> \<open>path_exists\<close> and \<open>path_is_directory\<close>; \<open>ImageInput::create\<close> (\<open>None\<close> for a
    null pointer); \<open>ImageInput::open\<close>, with the truth value of
    \<open>oiio:UnassociatedAlpha\<close> in the configuration (\<open>None\<close> when it returns false,
    otherwise the \<open>ImageSpec\<close> it fills in); \<open>ImageInput::read_image\<close>, with the
    format and whether the scan lines are stored from the last to the first (the
    negative stride of lines 634-638): the truth value it returns and the components it
    writes, in the order of the buffer; \<open>ImageInput::format_name\<close>;
  \<^item> the manager's callbacks for built-in images, \<open>None\<close> for one that is not set: the
    sizes and number of components that \<open>builtin_image_info_cb\<close> reports, and for the
    two pixel callbacks the truth value returned and the components written, given the
    file name and the number of components asked for;
  \<^item> \<open>util_image_resize_pixels\<close>: the scaled pixels and their three sizes;
  \<^item> \<open>get_tx\<close> (whether a mip-mapped file exists, and the file name it leaves in the
    image) and the lookup of a texture handle (\<open>None\<close> for a handle that is not good).

  The sizes and component counts that OIIO, a header or a callback deliver are natural
  numbers.
\<close>

record ('h, 'i) image_env =
  TEX_IMAGE_MISSING_R :: real
  TEX_IMAGE_MISSING_G :: real
  TEX_IMAGE_MISSING_B :: real
  TEX_IMAGE_MISSING_A :: real
  type_index :: "ImageDataType \<Rightarrow> nat"
  texture_limit :: int
  float_to_half :: "real \<Rightarrow> real"
  half_mul_div255 :: "real \<Rightarrow> real \<Rightarrow> real"
  uninitialized :: "nat \<Rightarrow> real"
  path_exists :: "string \<Rightarrow> bool"
  path_is_directory :: "string \<Rightarrow> bool"
  ImageInput_create :: "string \<Rightarrow> 'i option"
  ImageInput_open :: "'i \<Rightarrow> string \<Rightarrow> bool \<Rightarrow> ImageSpec option"
  read_image :: "'i \<Rightarrow> TypeDesc \<Rightarrow> bool \<Rightarrow> bool \<times> real list"
  format_name :: "'i \<Rightarrow> string"
  builtin_image_info_cb :: "(string \<Rightarrow> nat \<times> nat \<times> nat \<times> nat) option"
  builtin_image_pixels_cb :: "(string \<Rightarrow> nat \<Rightarrow> bool \<times> real list) option"
  builtin_image_float_pixels_cb :: "(string \<Rightarrow> nat \<Rightarrow> bool \<times> real list) option"
  util_image_resize_pixels ::
    "real list \<Rightarrow> nat \<Rightarrow> nat \<Rightarrow> nat \<Rightarrow> nat \<Rightarrow> real \<Rightarrow> real list \<times> nat \<times> nat \<times> nat"
  get_tx :: "Image \<Rightarrow> bool \<times> string"
  get_texture_handle :: "string \<Rightarrow> 'h option"

text \<open>How a call can fail to return normally: an index outside a \<open>vector\<close>, a call of a
  callback that is not set, a conversion of a \<open>float\<close> to an integer type that cannot
  hold its integral part (undefined in C), and a loop that does not end.\<close>

datatype load_error = IndexOutOfRange | EmptyCallback | UndefinedConversion | NoReturn

definition type_index_to_flattened_slot ::
  "('h, 'i) image_env \<Rightarrow> 'h image_state \<Rightarrow> nat \<Rightarrow> ImageDataType \<Rightarrow> nat" where
  "type_index_to_flattened_slot env st slot t =
    (if cuda_fermi_limits st then
       (if t = IMAGE_DATA_TYPE_BYTE4 then slot + 5 else slot)
     else (push_bit 3 slot) OR (type_index env t))"

definition name_from_type :: "ImageDataType \<Rightarrow> string" where
  "name_from_type t =
    (if t = IMAGE_DATA_TYPE_FLOAT4 then ''float4''
     else if t = IMAGE_DATA_TYPE_FLOAT then ''float''
     else if t = IMAGE_DATA_TYPE_BYTE then ''byte''
     else if t = IMAGE_DATA_TYPE_HALF4 then ''half4''
     else if t = IMAGE_DATA_TYPE_HALF then ''half''
     else if t = IMAGE_DATA_TYPE_USHORT then ''ushort''
     else if t = IMAGE_DATA_TYPE_USHORT4 then ''ushort4''
     else ''byte4'')"

text \<open>The name \<open>__tex_image_<type>_<flat slot>\<close>, as the pair of its two variable parts.\<close>

definition texture_name :: "('h, 'i) image_env \<Rightarrow> 'h image_state \<Rightarrow> ImageDataType \<Rightarrow> nat \<Rightarrow> string \<times> nat" where
  "texture_name env st t slot = (name_from_type t, type_index_to_flattened_slot env st slot t)"

text \<open>\<open>CPUDevice::tex_free\<close> and \<open>CPUDevice::tex_alloc\<close>; the second returns the vector
  and the device's textures. \<open>data_pointer\<close> is null exactly for a vector without
  elements.\<close>

definition tex_free :: "device_vector \<Rightarrow> device_vector" where
  "tex_free mem = (if device_pointer mem then mem\<lparr>device_pointer := False\<rparr> else mem)"

definition tex_alloc ::
  "string \<times> nat \<Rightarrow> device_vector \<Rightarrow> InterpolationType \<Rightarrow> ExtensionType
     \<Rightarrow> (string \<times> nat \<Rightarrow> kernel_texture option)
     \<Rightarrow> device_vector \<times> (string \<times> nat \<Rightarrow> kernel_texture option)" where
  "tex_alloc name mem interp ext textures =
    (mem\<lparr>device_pointer := (vdata mem \<noteq> [])\<rparr>,
     textures(name \<mapsto> \<lparr>tex_data = vdata mem, tex_width = data_width mem,
                          tex_height = data_height mem, tex_depth = data_depth mem,
                          tex_interpolation = interp, tex_extension = ext\<rparr>))"

subsection \<open>Loading the pixels of a file\<close>

text \<open>\<open>ImageManager::file_load_image_generic\<close> (lines 531-596): the \<open>ImageInput\<close> that
  it leaves in \<open>in\<close> (\<open>None\<close> when the image is not read through OIIO), the three sizes
  and the number of components; \<open>None\<close> when it returns false.\<close>

definition file_load_image_generic ::
  "('h, 'i) image_env \<Rightarrow> Image \<Rightarrow> ('i option \<times> nat \<times> nat \<times> nat \<times> nat) option" where
  "file_load_image_generic env img =
    (if filename img = [] then None
     else
       (case
          (if \<not> builtin_data img \<and> generated_data img = None then
             (if \<not> path_exists env (filename img) \<or> path_is_directory env (filename img)
              then None
              else
                (case ImageInput_create env (filename img) of
                   None \<Rightarrow> None
                 | Some inp \<Rightarrow>
                     (case ImageInput_open env inp (filename img) (use_alpha img = False) of
                        None \<Rightarrow> None
                      | Some spec \<Rightarrow>
                          Some (Some inp, spec_width spec, spec_height spec, spec_depth spec,
                                nchannels spec))))
           else
             (case generated_data img of
                Some (header, float4_pixels) \<Rightarrow>
                  Some (None, header_width header, header_height header, 1, 4)
              | None \<Rightarrow>
                  (case builtin_image_info_cb env of
                     None \<Rightarrow> None
                   | Some info_cb \<Rightarrow>
                       if builtin_image_pixels_cb env = None then None
                       else (case info_cb (filename img) of
                               (width, height, depth, components) \<Rightarrow>
                                 Some (None, width, height, depth, components)))))
        of
          None \<Rightarrow> None
        | Some (inp, width, height, depth, components) \<Rightarrow>
            if \<not> (components \<ge> 1 \<and> components \<le> 4) then None
            else Some (inp, width, height, depth, components)))"

text \<open>The element type of the device vector of an image type has four components
  (\<open>float4\<close>, \<open>uchar4\<close>, \<open>half4\<close>, \<open>ushort4\<close>) or one.\<close>

definition element_channels :: "ImageDataType \<Rightarrow> nat" where
  "element_channels t =
    (case t of
       IMAGE_DATA_TYPE_FLOAT4 \<Rightarrow> 4 | IMAGE_DATA_TYPE_BYTE4 \<Rightarrow> 4
     | IMAGE_DATA_TYPE_HALF4 \<Rightarrow> 4 | IMAGE_DATA_TYPE_USHORT4 \<Rightarrow> 4
     | IMAGE_DATA_TYPE_FLOAT \<Rightarrow> 1 | IMAGE_DATA_TYPE_BYTE \<Rightarrow> 1
     | IMAGE_DATA_TYPE_HALF \<Rightarrow> 1 | IMAGE_DATA_TYPE_USHORT \<Rightarrow> 1)"

text \<open>Modelled from the spec: \<open>device_vector::resize\<close> (of \<open>device_memory.h\<close>, not among
  the sources) gives the vector the sizes asked for and room for
  \<open>width * height * depth\<close> elements of \<open>chans\<close> components each. The call
  \<open>resize(1, 1)\<close> of the eight branches leaves the depth out; it is 0 here, and since
  each branch then writes one element, a height or depth of 0 counts as 1 in the number
  of elements. The new storage is not written (\<open>uninitialized\<close>), and the device
  pointer stays as it is. A failed allocation is outside the model.\<close>

definition device_vector_resize ::
  "('h, 'i) image_env \<Rightarrow> nat \<Rightarrow> nat \<Rightarrow> nat \<Rightarrow> nat \<Rightarrow> device_vector \<Rightarrow> device_vector" where
  "device_vector_resize env chans width height depth v =
     v\<lparr>vdata := map (uninitialized env)
                  [0..<width * (if height = 0 then 1 else height)
                         * (if depth = 0 then 1 else depth) * chans],
       data_width := width, data_height := height, data_depth := depth\<rparr>"

text \<open>What a buffer holds after a call has written \<open>vals\<close> from its start. Components
  delivered beyond the end of the buffer are dropped (in C they would be written past
  it).\<close>

definition overwrite :: "real list \<Rightarrow> real list \<Rightarrow> real list" where
  "overwrite buffer vals = take (length buffer) (vals @ drop (length vals) buffer)"

text \<open>Lines 625-677 of \<open>file_load_image\<close>: the pixels are read through OIIO, copied
  from the generated data, or asked of a callback; for a built-in image in a format
  other than \<open>FLOAT\<close> and \<open>UINT8\<close> nothing is read. The truth values that
  \<open>read_image\<close> and the callbacks return are not looked at. \<open>components\<close> is at most 4
  after line 585, so the two branches for more components (lines 628-631 and 643-652)
  are never taken.\<close>

definition load_pixels ::
  "('h, 'i) image_env \<Rightarrow> TypeDesc \<Rightarrow> Image \<Rightarrow> 'i option \<Rightarrow> nat \<Rightarrow> nat \<Rightarrow> nat \<Rightarrow> real list
     \<Rightarrow> load_error + real list" where
  "load_pixels env FileFormat img inp depth components num_pixels pixels =
    (case inp of
       Some i \<Rightarrow> Inr (overwrite pixels (snd (read_image env i FileFormat (depth \<le> 1))))
     | None \<Rightarrow>
         (case generated_data img of
            Some (header, float4_pixels) \<Rightarrow>
              Inr (overwrite pixels
                     (take (header_width header * header_height header * 4) float4_pixels))
          | None \<Rightarrow>
              if FileFormat = TypeDesc_FLOAT then
                (case builtin_image_float_pixels_cb env of
                   None \<Rightarrow> Inl EmptyCallback
                 | Some cb \<Rightarrow>
                     Inr (overwrite pixels (snd (cb (filename img) (num_pixels * components)))))
              else if FileFormat = TypeDesc_UINT8 then
                (case builtin_image_pixels_cb env of
                   None \<Rightarrow> Inl EmptyCallback
                 | Some cb \<Rightarrow>
                     Inr (overwrite pixels (snd (cb (filename img) (num_pixels * components)))))
              else Inr pixels))"

text \<open>\<open>(x * y) / 255\<close> in the storage type: \<open>uchar\<close> for \<open>UINT8\<close> (the operands are
  promoted to \<open>int\<close>, the division is that of integers), \<open>float\<close> for \<open>FLOAT\<close>, and
  \<open>half\<close> for \<open>HALF\<close> and \<open>USHORT\<close>.\<close>

definition storage_mul_div255 :: "('h, 'i) image_env \<Rightarrow> TypeDesc \<Rightarrow> real \<Rightarrow> real \<Rightarrow> real" where
  "storage_mul_div255 env FileFormat x y =
    (if FileFormat = TypeDesc_UINT8 then real_of_int ((\<lfloor>x\<rfloor> * \<lfloor>y\<rfloor>) div 255)
     else if FileFormat = TypeDesc_FLOAT then x * y / 255
     else half_mul_div255 env x y)"

text \<open>The bodies of the five loops of lines 688-725, for the pixel \<open>i\<close>.\<close>

definition cmyk_pixel ::
  "('h, 'i) image_env \<Rightarrow> TypeDesc \<Rightarrow> real \<Rightarrow> nat \<Rightarrow> real list \<Rightarrow> real list" where
  "cmyk_pixel env FileFormat alpha_one i pixels =
    (let pixels = pixels[i*4+2 := storage_mul_div255 env FileFormat (pixels ! (i*4+2)) (pixels ! (i*4+3))];
         pixels = pixels[i*4+1 := storage_mul_div255 env FileFormat (pixels ! (i*4+1)) (pixels ! (i*4+3))];
         pixels = pixels[i*4+0 := storage_mul_div255 env FileFormat (pixels ! (i*4+0)) (pixels ! (i*4+3))]
     in pixels[i*4+3 := alpha_one])"

definition grayscale_alpha_pixel :: "nat \<Rightarrow> real list \<Rightarrow> real list" where
  "grayscale_alpha_pixel i pixels =
    (let pixels = pixels[i*4+3 := pixels ! (i*2+1)];
         pixels = pixels[i*4+2 := pixels ! (i*2+0)];
         pixels = pixels[i*4+1 := pixels ! (i*2+0)]
     in pixels[i*4+0 := pixels ! (i*2+0)])"

definition rgb_pixel :: "real \<Rightarrow> nat \<Rightarrow> real list \<Rightarrow> real list" where
  "rgb_pixel alpha_one i pixels =
    (let pixels = pixels[i*4+3 := alpha_one];
         pixels = pixels[i*4+2 := pixels ! (i*3+2)];
         pixels = pixels[i*4+1 := pixels ! (i*3+1)]
     in pixels[i*4+0 := pixels ! (i*3+0)])"

definition grayscale_pixel :: "real \<Rightarrow> nat \<Rightarrow> real list \<Rightarrow> real list" where
  "grayscale_pixel alpha_one i pixels =
    (let pixels = pixels[i*4+3 := alpha_one];
         pixels = pixels[i*4+2 := pixels ! i];
         pixels = pixels[i*4+1 := pixels ! i]
     in pixels[i*4+0 := pixels ! i])"

definition opaque_pixel :: "real \<Rightarrow> nat \<Rightarrow> real list \<Rightarrow> real list" where
  "opaque_pixel alpha_one i pixels = pixels[i*4+3 := alpha_one]"

text \<open>Lines 685-727, for an image type with four channels. Each loop runs \<open>i\<close> from
  \<open>num_pixels - 1\<close> down to 0.\<close>

definition expand_to_rgba ::
  "('h, 'i) image_env \<Rightarrow> TypeDesc \<Rightarrow> real \<Rightarrow> bool \<Rightarrow> nat \<Rightarrow> bool \<Rightarrow> nat \<Rightarrow> real list \<Rightarrow> real list" where
  "expand_to_rgba env FileFormat alpha_one cmyk components with_alpha num_pixels pixels =
    (let pixels =
           (if cmyk then fold (cmyk_pixel env FileFormat alpha_one) (rev [0..<num_pixels]) pixels
            else if components = 2 then fold grayscale_alpha_pixel (rev [0..<num_pixels]) pixels
            else if components = 3 then fold (rgb_pixel alpha_one) (rev [0..<num_pixels]) pixels
            else if components = 1 then fold (grayscale_pixel alpha_one) (rev [0..<num_pixels]) pixels
            else pixels)
     in if with_alpha = False then fold (opaque_pixel alpha_one) (rev [0..<num_pixels]) pixels
        else pixels)"

text \<open>The loop of lines 730-732. With a limit that is not positive it need not end.\<close>

partial_function (option) scale_factor_loop :: "nat \<Rightarrow> int \<Rightarrow> real \<Rightarrow> real option" where
  "scale_factor_loop max_size limit scale_factor =
    (if real max_size * scale_factor > real_of_int limit
     then scale_factor_loop max_size limit (scale_factor * 0.5)
     else Some scale_factor)"

text \<open>Lines 612-750 of \<open>file_load_image\<close>, for an image that
  \<open>file_load_image_generic\<close> has opened: the vector with the pixels. \<open>pixels\<close>
  points either into the vector or, for an image above the texture limit, into
  \<open>pixels_storage\<close>, which a \<open>resize\<close> fills with zeros; in that case
  \<open>pixels_storage.size()\<close> is the length of \<open>pixels\<close>.\<close>

definition file_load_image_pixels ::
  "('h, 'i) image_env \<Rightarrow> TypeDesc \<Rightarrow> Image \<Rightarrow> ImageDataType \<Rightarrow> int \<Rightarrow> device_vector
     \<Rightarrow> 'i option \<Rightarrow> nat \<Rightarrow> nat \<Rightarrow> nat \<Rightarrow> nat \<Rightarrow> load_error + device_vector" where
  "file_load_image_pixels env FileFormat img t limit tex_img inp width height depth components =
    (let alpha_one = (if FileFormat = TypeDesc_UINT8 then 255 else 1);
         max_size = max (max width height) depth;
         use_storage = (limit > 0 \<and> int max_size > limit);
         tex_img = (if use_storage then tex_img
                    else device_vector_resize env (element_channels t) width height depth tex_img);
         pixels = (if use_storage then replicate (width * height * depth * 4) 0
                   else vdata tex_img);
         num_pixels = width * height * depth
     in
       (case load_pixels env FileFormat img inp depth components num_pixels pixels of
          Inl e \<Rightarrow> Inl e
        | Inr pixels \<Rightarrow>
            let cmyk = (case inp of
                          Some i \<Rightarrow> format_name env i = ''jpeg'' \<and> components = 4
                        | None \<Rightarrow> False);
                is_rgba = (t = IMAGE_DATA_TYPE_FLOAT4 \<or> t = IMAGE_DATA_TYPE_HALF4 \<or>
                           t = IMAGE_DATA_TYPE_BYTE4 \<or> t = IMAGE_DATA_TYPE_USHORT4);
                pixels = (if is_rgba
                          then expand_to_rgba env FileFormat alpha_one cmyk components
                                 (use_alpha img) num_pixels pixels
                          else pixels)
            in
              if \<not> use_storage then Inr (tex_img\<lparr>vdata := pixels\<rparr>)
              else if length pixels > 0 then
                (case scale_factor_loop max_size limit 1 of
                   None \<Rightarrow> Inl NoReturn
                 | Some scale_factor \<Rightarrow>
                     (case util_image_resize_pixels env pixels width height depth
                             (if is_rgba then 4 else 1) scale_factor of
                        (scaled_pixels, scaled_width, scaled_height, scaled_depth) \<Rightarrow>
                          let tex_img = device_vector_resize env (element_channels t)
                                          scaled_width scaled_height scaled_depth tex_img
                          in Inr (tex_img\<lparr>vdata := overwrite (vdata tex_img) scaled_pixels\<rparr>)))
              else Inr tex_img))"

text \<open>\<open>ImageManager::file_load_image\<close> (lines 598-751), instantiated with a file format,
  which fixes the storage type (\<open>float\<close> for \<open>FLOAT\<close>, \<open>uchar\<close> for \<open>UINT8\<close>, \<open>half\<close>
  for \<open>HALF\<close> and \<open>USHORT\<close>): the truth value returned and the vector. It returns
  false at line 610 only.\<close>

definition file_load_image ::
  "('h, 'i) image_env \<Rightarrow> TypeDesc \<Rightarrow> Image \<Rightarrow> ImageDataType \<Rightarrow> int \<Rightarrow> device_vector
     \<Rightarrow> load_error + bool \<times> device_vector" where
  "file_load_image env FileFormat img t limit tex_img =
    (case file_load_image_generic env img of
       None \<Rightarrow> Inr (False, tex_img)
     | Some (inp, width, height, depth, components) \<Rightarrow>
         (case file_load_image_pixels env FileFormat img t limit tex_img
                 inp width height depth components of
            Inl e \<Rightarrow> Inl e
          | Inr tex_img \<Rightarrow> Inr (True, tex_img)))"

subsection \<open>The image of a missing texture\<close>

text \<open>The conversion of a \<open>float\<close> to an unsigned integer type of \<open>bits\<close> bits: the
  fraction is dropped; \<open>None\<close> where C leaves the result undefined, because the
  integral part is not a value of the type.\<close>

definition integral_part :: "real \<Rightarrow> real" where
  "integral_part v = real_of_int (if v < 0 then - \<lfloor>- v\<rfloor> else \<lfloor>v\<rfloor>)"

definition float_to_unsigned :: "nat \<Rightarrow> real \<Rightarrow> real option" where
  "float_to_unsigned bits v =
    (if - 1 < v \<and> v < 2 ^ bits then Some (integral_part v) else None)"

text \<open>The writes \<open>pixels[0] = ...\<close> to \<open>pixels[3] = ...\<close> of a four-channel branch and
  \<open>pixels[0] = ...\<close> of a one-channel branch, given the conversion to the type of
  \<open>pixels\<close>.\<close>

definition store4 ::
  "(real \<Rightarrow> real option) \<Rightarrow> real \<Rightarrow> real \<Rightarrow> real \<Rightarrow> real \<Rightarrow> real list \<Rightarrow> load_error + real list" where
  "store4 conv r g b a pixels =
    (case conv r of None \<Rightarrow> Inl UndefinedConversion | Some r \<Rightarrow>
     (case conv g of None \<Rightarrow> Inl UndefinedConversion | Some g \<Rightarrow>
      (case conv b of None \<Rightarrow> Inl UndefinedConversion | Some b \<Rightarrow>
       (case conv a of None \<Rightarrow> Inl UndefinedConversion | Some a \<Rightarrow>
          Inr (pixels[0 := r, 1 := g, 2 := b, 3 := a])))))"

definition store1 :: "(real \<Rightarrow> real option) \<Rightarrow> real \<Rightarrow> real list \<Rightarrow> load_error + real list" where
  "store1 conv r pixels =
    (case conv r of None \<Rightarrow> Inl UndefinedConversion | Some r \<Rightarrow> Inr (pixels[0 := r]))"

text \<open>The image set on failure, as each of the eight branches writes it (lines 849-854,
  884-886, 916-921, 950-952, 981-986, 1015-1017, 1046-1051, 1080-1082): the two float
  types store the constants as they are, the byte types the constants times 255 in an
  \<open>uchar\<close>, the half types the constants in a \<open>half\<close>, the ushort types the constants
  times 65535 in an \<open>ushort\<close> or \<open>uint16_t\<close>.\<close>

definition missing_image ::
  "('h, 'i) image_env \<Rightarrow> ImageDataType \<Rightarrow> device_vector \<Rightarrow> load_error + device_vector" where
  "missing_image env t tex_img =
    (let tex_img = device_vector_resize env (element_channels t) 1 1 0 tex_img;
         pixels = vdata tex_img;
         R = TEX_IMAGE_MISSING_R env; G = TEX_IMAGE_MISSING_G env;
         B = TEX_IMAGE_MISSING_B env; A = TEX_IMAGE_MISSING_A env
     in
       (case
          (case t of
             IMAGE_DATA_TYPE_FLOAT4 \<Rightarrow> store4 Some R G B A pixels
           | IMAGE_DATA_TYPE_FLOAT \<Rightarrow> store1 Some R pixels
           | IMAGE_DATA_TYPE_BYTE4 \<Rightarrow>
               store4 (float_to_unsigned 8) (R * 255) (G * 255) (B * 255) (A * 255) pixels
           | IMAGE_DATA_TYPE_BYTE \<Rightarrow> store1 (float_to_unsigned 8) (R * 255) pixels
           | IMAGE_DATA_TYPE_HALF4 \<Rightarrow>
               store4 (\<lambda>v. Some (float_to_half env v)) R G B A pixels
           | IMAGE_DATA_TYPE_HALF \<Rightarrow> store1 (\<lambda>v. Some (float_to_half env v)) R pixels
           | IMAGE_DATA_TYPE_USHORT4 \<Rightarrow>
               store4 (float_to_unsigned 16) (R * 65535) (G * 65535) (B * 65535) (A * 65535) pixels
           | IMAGE_DATA_TYPE_USHORT \<Rightarrow> store1 (float_to_unsigned 16) (R * 65535) pixels)
        of
          Inl e \<Rightarrow> Inl e
        | Inr pixels \<Rightarrow> Inr (tex_img\<lparr>vdata := pixels\<rparr>)))"

text \<open>Whether the conversions that the branch of an image type applies to the
  constants are defined: those of the constants times 255 to \<open>uchar\<close> and of the
  constants times 65535 to \<open>ushort\<close>; and the colour that the constants then are in
  the element type.\<close>

definition missing_colour_fits :: "('h, 'i) image_env \<Rightarrow> ImageDataType \<Rightarrow> bool" where
  "missing_colour_fits env t =
    (let R = TEX_IMAGE_MISSING_R env; G = TEX_IMAGE_MISSING_G env;
         B = TEX_IMAGE_MISSING_B env; A = TEX_IMAGE_MISSING_A env;
         fits = (\<lambda>bits v. - 1 < v \<and> v < 2 ^ bits)
     in case t of
          IMAGE_DATA_TYPE_BYTE4 \<Rightarrow>
            fits (8::nat) (R * 255) \<and> fits 8 (G * 255) \<and> fits 8 (B * 255) \<and> fits 8 (A * 255)
        | IMAGE_DATA_TYPE_BYTE \<Rightarrow> fits 8 (R * 255)
        | IMAGE_DATA_TYPE_USHORT4 \<Rightarrow>
            fits 16 (R * 65535) \<and> fits 16 (G * 65535) \<and> fits 16 (B * 65535)
            \<and> fits 16 (A * 65535)
        | IMAGE_DATA_TYPE_USHORT \<Rightarrow> fits 16 (R * 65535)
        | _ \<Rightarrow> True)"

definition missing_colour :: "('h, 'i) image_env \<Rightarrow> ImageDataType \<Rightarrow> real list" where
  "missing_colour env t =
    (let R = TEX_IMAGE_MISSING_R env; G = TEX_IMAGE_MISSING_G env;
         B = TEX_IMAGE_MISSING_B env; A = TEX_IMAGE_MISSING_A env
     in case t of
          IMAGE_DATA_TYPE_FLOAT4 \<Rightarrow> [R, G, B, A]
        | IMAGE_DATA_TYPE_FLOAT \<Rightarrow> [R]
        | IMAGE_DATA_TYPE_BYTE4 \<Rightarrow>
            [integral_part (R * 255), integral_part (G * 255), integral_part (B * 255),
             integral_part (A * 255)]
        | IMAGE_DATA_TYPE_BYTE \<Rightarrow> [integral_part (R * 255)]
        | IMAGE_DATA_TYPE_HALF4 \<Rightarrow>
            [float_to_half env R, float_to_half env G, float_to_half env B, float_to_half env A]
        | IMAGE_DATA_TYPE_HALF \<Rightarrow> [float_to_half env R]
        | IMAGE_DATA_TYPE_USHORT4 \<Rightarrow>
            [integral_part (R * 65535), integral_part (G * 65535), integral_part (B * 65535),
             integral_part (A * 65535)]
        | IMAGE_DATA_TYPE_USHORT \<Rightarrow> [integral_part (R * 65535)])"

text \<open>Lines 768-821: the image is left to the OIIO texture system.\<close>

definition oiio_interpolation_of :: "InterpolationType \<Rightarrow> TextureOpt_Interp" where
  "oiio_interpolation_of i =
    (case i of
       INTERPOLATION_SMART \<Rightarrow> InterpSmartBicubic
     | INTERPOLATION_CUBIC \<Rightarrow> InterpBicubic
     | INTERPOLATION_LINEAR \<Rightarrow> InterpBilinear
     | INTERPOLATION_NONE \<Rightarrow> InterpClosest
     | INTERPOLATION_CLOSEST \<Rightarrow> InterpClosest)"

definition oiio_extension_of :: "ExtensionType \<Rightarrow> TextureOpt_Wrap" where
  "oiio_extension_of e =
    (case e of
       EXTENSION_CLIP \<Rightarrow> WrapBlack
     | EXTENSION_EXTEND \<Rightarrow> WrapClamp
     | EXTENSION_REPEAT \<Rightarrow> WrapPeriodic)"

definition set_image :: "'h image_state \<Rightarrow> ImageDataType \<Rightarrow> nat \<Rightarrow> Image \<Rightarrow> 'h image_state" where
  "set_image st t slot img = st\<lparr>images := (images st)(t := (images st t)[slot := Some img])\<rparr>"

definition device_load_image_oiio ::
  "('h, 'i) image_env \<Rightarrow> 'h OIIOTexture \<Rightarrow> 'h image_state \<Rightarrow> ImageDataType \<Rightarrow> nat \<Rightarrow> Image \<Rightarrow> 'h image_state" where
  "device_load_image_oiio env empty_texture st t slot img =
    (case get_tx env img of (have_mip, tx_filename) \<Rightarrow>
       let img = img\<lparr>filename := tx_filename\<rparr>;
           st = (case oiio_memory st of
                   None \<Rightarrow> st
                 | Some textures \<Rightarrow>
                     let flat_slot = type_index_to_flattened_slot env st slot t;
                         textures = (if length textures \<le> flat_slot
                                     then textures @ replicate (flat_slot + 1 - length textures) empty_texture
                                     else textures);
                         textures =
                           (case get_texture_handle env (filename img) of
                              Some h \<Rightarrow>
                                textures[flat_slot := (textures ! flat_slot)\<lparr>
                                   handle := Some h,
                                   oiio_interpolation := oiio_interpolation_of (interpolation img),
                                   oiio_extension := oiio_extension_of (extension img),
                                   is_linear := have_mip\<rparr>]
                            | None \<Rightarrow> textures[flat_slot := (textures ! flat_slot)\<lparr>handle := None\<rparr>])
                     in st\<lparr>oiio_memory := Some textures\<rparr>)
       in set_image st t slot (img\<lparr>need_load := False\<rparr>))"

text \<open>The file format with which the branch of an image type calls \<open>file_load_image\<close>
  (lines 843, 878, 910, 945, 976, 1010, 1041, 1075).\<close>

definition file_format :: "ImageDataType \<Rightarrow> TypeDesc" where
  "file_format t =
    (case t of
       IMAGE_DATA_TYPE_FLOAT4 \<Rightarrow> TypeDesc_FLOAT | IMAGE_DATA_TYPE_FLOAT \<Rightarrow> TypeDesc_FLOAT
     | IMAGE_DATA_TYPE_BYTE4 \<Rightarrow> TypeDesc_UINT8 | IMAGE_DATA_TYPE_BYTE \<Rightarrow> TypeDesc_UINT8
     | IMAGE_DATA_TYPE_HALF4 \<Rightarrow> TypeDesc_HALF | IMAGE_DATA_TYPE_HALF \<Rightarrow> TypeDesc_HALF
     | IMAGE_DATA_TYPE_USHORT4 \<Rightarrow> TypeDesc_USHORT | IMAGE_DATA_TYPE_USHORT \<Rightarrow> TypeDesc_USHORT)"

text \<open>Lines 833-1092: the branch of one image type. All eight branches have this form; the
  one for \<open>IMAGE_DATA_TYPE_FLOAT4\<close> alone indexes the device scene's array without
  comparing \<open>slot\<close> with its size first.\<close>

definition device_load_image_typed ::
  "('h, 'i) image_env \<Rightarrow> 'h image_state \<Rightarrow> ImageDataType \<Rightarrow> nat \<Rightarrow> Image \<Rightarrow> load_error + 'h image_state" where
  "device_load_image_typed env st t slot img =
    (if t \<noteq> IMAGE_DATA_TYPE_FLOAT4 \<and> slot \<ge> length (tex_image st t) then Inr st
     else if slot \<ge> length (tex_image st t) then Inl IndexOutOfRange
     else
       let tex_img = (case tex_image st t ! slot of
                        None \<Rightarrow> \<lparr>vdata = [], data_width = 0, data_height = 0, data_depth = 0,
                                   device_pointer = False\<rparr>
                      | Some v \<Rightarrow> v);
           tex_img = (if device_pointer tex_img then tex_free tex_img else tex_img)
       in
         (case
            (case file_load_image env (file_format t) img t (texture_limit env) tex_img of
               Inl e \<Rightarrow> Inl e
             | Inr (loaded, tex_img) \<Rightarrow>
                 if \<not> loaded then missing_image env t tex_img else Inr tex_img)
          of
            Inl e \<Rightarrow> Inl e
          | Inr tex_img \<Rightarrow>
              let (tex_img, textures) =
                    (if \<not> pack_images st
                     then tex_alloc (texture_name env st t slot) tex_img (interpolation img)
                            (extension img) (kernel_textures st)
                     else (tex_img, kernel_textures st));
                  st = st\<lparr>tex_image := (tex_image st)(t := (tex_image st t)[slot := Some tex_img]),
                          kernel_textures := textures\<rparr>
              in Inr (set_image st t slot (img\<lparr>need_load := False\<rparr>))))"

text \<open>\<open>ImageManager::device_load_image\<close>. \<open>empty_texture\<close> is a default-constructed
  entry of the OIIO texture table.\<close>

definition device_load_image ::
  "('h, 'i) image_env \<Rightarrow> 'h OIIOTexture \<Rightarrow> ImageDataType \<Rightarrow> nat \<Rightarrow> 'h image_state
     \<Rightarrow> load_error + 'h image_state" where
  "device_load_image env empty_texture t slot st =
    (if cancel st then Inr st
     else if slot \<ge> length (images st t) then Inl IndexOutOfRange
     else
       (case images st t ! slot of
          None \<Rightarrow> Inr st
        | Some img \<Rightarrow>
            if oiio_texture_system st \<and> \<not> builtin_data img
            then Inr (device_load_image_oiio env empty_texture st t slot img)
            else device_load_image_typed env st t slot img))"

section \<open>Tasks of the CPU device (device/device\_cpu.cpp)\<close>

text \<open>A device task, with the fields that say which part of the work it covers: the
  rows \<open>y\<close> to \<open>y + h - 1\<close> of a film conversion, the pixels \<open>shader_x\<close> to
  \<open>shader_x + shader_w - 1\<close> of a shader evaluation. The fields \<open>type\<close>, \<open>x\<close>,
  \<open>y\<close>, \<open>w\<close> and \<open>h\<close> carry the prefix \<open>task_\<close> here.\<close>

datatype DeviceTask_Type = PATH_TRACE | FILM_CONVERT | SHADER

record DeviceTask =
  task_type :: DeviceTask_Type
  task_x :: int
  task_y :: int
  task_w :: int
  task_h :: int
  shader_x :: int
  shader_w :: int

text \<open>Modelled from the spec: \<open>DeviceTask::get_subtask_count\<close> (of \<open>device_task.cpp\<close>,
  not among the sources). A task is split into \<open>num\<close> sub-tasks; with a cap
  \<open>max_size\<close> on the pixels of a shading sub-task (0 for no cap) it is split into as
  many more as the cap requires.\<close>

definition get_subtask_count :: "DeviceTask \<Rightarrow> int \<Rightarrow> int \<Rightarrow> int" where
  "get_subtask_count task num max_size =
    (if max_size \<noteq> 0 \<and> task_type task = SHADER
     then max num ((shader_w task + max_size - 1) div max_size)
     else num)"

text \<open>The range number \<open>i\<close> of \<open>num\<close> consecutive ranges that cover \<open>len\<close> units from
  \<open>start\<close>, as equal as integer division makes them: its start and its length.\<close>

definition split_range :: "int \<Rightarrow> int \<Rightarrow> int \<Rightarrow> nat \<Rightarrow> int \<times> int" where
  "split_range start len num i =
     (start + (int i * len) div num, (int (Suc i) * len) div num - (int i * len) div num)"

text \<open>Modelled from the spec: \<open>DeviceTask::split\<close> (of \<open>device_task.cpp\<close>, not among
  the sources). The sub-tasks are copies of the task: of a path-trace task as it is (its
  workers share the tile queue), of a film conversion with consecutive ranges of its
  rows, of a shader evaluation with consecutive ranges of its pixels.\<close>

definition split :: "DeviceTask \<Rightarrow> int \<Rightarrow> int \<Rightarrow> DeviceTask list" where
  "split task num max_size =
    (let n = get_subtask_count task num max_size
     in map (\<lambda>i. case task_type task of
                    PATH_TRACE \<Rightarrow> task
                  | FILM_CONVERT \<Rightarrow>
                      (case split_range (task_y task) (task_h task) n i of
                         (ty, th) \<Rightarrow> task\<lparr>task_y := ty, task_h := th\<rparr>)
                  | SHADER \<Rightarrow>
                      (case split_range (shader_x task) (shader_w task) n i of
                         (tx, tw) \<Rightarrow> task\<lparr>shader_x := tx, shader_w := tw\<rparr>))
            [0..<nat n])"

text \<open>The device: \<open>num_threads\<close> is \<open>TaskScheduler::num_threads()\<close>, \<open>task_pool\<close> the
  tasks pushed on the pool and not yet taken by a worker, oldest first.\<close>

record CPUDevice =
  num_threads :: int
  task_pool :: "DeviceTask list"

text \<open>Modelled from the spec: \<open>TaskPool::push\<close> (of \<open>util_task.cpp\<close>, not among the
  sources) enqueues one unit of work.\<close>

definition task_pool_push :: "DeviceTask \<Rightarrow> CPUDevice \<Rightarrow> CPUDevice" where
  "task_pool_push task dev = dev\<lparr>task_pool := task_pool dev @ [task]\<rparr>"

text \<open>\<open>CPUDevice::get_split_task_count\<close> and \<open>CPUDevice::task_add\<close>. A call of
  \<open>split\<close> or \<open>get_subtask_count\<close> without its last argument passes no cap.\<close>

definition get_split_task_count :: "CPUDevice \<Rightarrow> DeviceTask \<Rightarrow> int" where
  "get_split_task_count dev task =
    (if task_type task = SHADER
     then get_subtask_count task (num_threads dev) 256
     else get_subtask_count task (num_threads dev) 0)"

definition task_add :: "DeviceTask \<Rightarrow> CPUDevice \<Rightarrow> CPUDevice" where
  "task_add task dev =
    (let tasks = (if task_type task = SHADER
                  then split task (num_threads dev) 256
                  else split task (num_threads dev) 0)
     in fold task_pool_push tasks dev)"

section \<open>Concrete inputs\<close>

text \<open>An assignment of the parameters for evaluating the model: one bit per flag, in the
  order in which the record lists them, the volume feature compiled in, assertions
  compiled out; and integrator settings, a path state and a shading point.\<close>

definition sample_kernel_types :: kernel_types where
  "sample_kernel_types = \<lparr>
     PATH_RAY_CAMERA = 1, PATH_RAY_REFLECT = 2, PATH_RAY_TRANSMIT = 4, PATH_RAY_DIFFUSE = 8,
     PATH_RAY_GLOSSY = 16, PATH_RAY_SINGULAR = 32, PATH_RAY_TRANSPARENT = 64,
     PATH_RAY_VOLUME_SCATTER = 128, PATH_RAY_MIS_SKIP = 256, PATH_RAY_DIFFUSE_ANCESTOR = 512,
     PATH_RAY_STORE_SHADOW_INFO = 1024,
     LABEL_NONE = 0, LABEL_TRANSMIT = 1, LABEL_REFLECT = 2, LABEL_DIFFUSE = 4, LABEL_GLOSSY = 8,
     LABEL_SINGULAR = 16, LABEL_TRANSPARENT = 32, LABEL_VOLUME_SCATTER = 64,
     SD_SHADER_OVERRIDE_BOUNCES = 1, SD_SHADER_HAS_ONLY_VOLUME = 2,
     PRNG_BOUNCE_NUM = 8, CLOSURE_BSDF_TRANSPARENT_ID = 33, CLOSURE_IS_BSDF = (\<lambda>t. t \<le> 33),
     defined_VOLUME = True, kernel_assert_checks = False \<rparr>"

definition sample_integrator :: KernelIntegrator where
  "sample_integrator = \<lparr> min_bounce = 3, max_bounce = 12, max_diffuse_bounce = 4,
     max_glossy_bounce = 4, max_transmission_bounce = 12, max_volume_bounce = 2,
     transparent_min_bounce = 8, transparent_max_bounce = 8, transparent_shadows = 0 \<rparr>"

definition sample_kg :: KernelGlobals where
  "sample_kg = \<lparr> integrator = sample_integrator, film = \<lparr> use_light_pass = 0 \<rparr> \<rparr>"

definition sample_state :: PathState where
  "sample_state = \<lparr> flag = 1, rng_offset = 0, bounce = 5, diffuse_bounce = 1, glossy_bounce = 1,
     transmission_bounce = 2, transparent_bounce = 0, volume_bounce = 1,
     denoising_feature_weight = 0 \<rparr>"

definition sample_sd :: "unit ShaderData" where
  "sample_sd = \<lparr> shader_flag = 0, diffuse_bounces = 1, glossy_bounces = 1, transmission_bounces = 1,
     randb_closure = 0, closure = [], num_closure = 0 \<rparr>"

lemmas sample_defs =
  sample_kernel_types_def sample_integrator_def sample_kg_def sample_state_def sample_sd_def


text \<open>A shading point with a diffuse, a transparent and an emission closure in an array of
  capacity four; one with a diffuse and a glossy BSDF closure of equal sample weight;
  one with two diffuse closures of different parameters; one with two closures that are
  not BSDFs.\<close>

definition sample_closure :: "int \<Rightarrow> float3 \<Rightarrow> real \<Rightarrow> nat \<Rightarrow> nat ShaderClosure" where
  "sample_closure t w sw d = \<lparr> type = t, weight = w, sample_weight = sw, data = d \<rparr>"

definition sample_sd_alpha :: "nat ShaderData" where
  "sample_sd_alpha = \<lparr> shader_flag = 0, diffuse_bounces = 1, glossy_bounces = 1,
     transmission_bounces = 1, randb_closure = 0,
     closure = [sample_closure 2 (make_float3 (1/2) (1/2) (1/2)) 1 0,
                sample_closure 33 (make_float3 (1/4) (1/2) 2) 1 0,
                sample_closure 40 (make_float3 1 1 1) 0 0,
                sample_closure 0 (make_float3 0 0 0) 0 0],
     num_closure = 3 \<rparr>"

definition sample_sd_volume :: "nat ShaderData" where
  "sample_sd_volume = \<lparr> shader_flag = 2, diffuse_bounces = 1, glossy_bounces = 1,
     transmission_bounces = 1, randb_closure = 0,
     closure = [sample_closure 0 (make_float3 0 0 0) 0 0],
     num_closure = 0 \<rparr>"

definition sample_sd_two_bsdf :: "nat ShaderData" where
  "sample_sd_two_bsdf = \<lparr> shader_flag = 0, diffuse_bounces = 1, glossy_bounces = 1,
     transmission_bounces = 1, randb_closure = 0,
     closure = [sample_closure 2 (make_float3 (1/2) (1/2) (1/2)) 1 0,
                sample_closure 9 (make_float3 (1/2) (1/2) (1/2)) 1 0],
     num_closure = 2 \<rparr>"

definition sample_sd_two_diffuse :: "nat ShaderData" where
  "sample_sd_two_diffuse = \<lparr> shader_flag = 0, diffuse_bounces = 1, glossy_bounces = 1,
     transmission_bounces = 1, randb_closure = 1/2,
     closure = [sample_closure 2 (make_float3 (1/2) (1/2) (1/2)) 1 0,
                sample_closure 2 (make_float3 (1/4) (1/4) (1/4)) 3 1],
     num_closure = 2 \<rparr>"

definition sample_sd_no_bsdf :: "nat ShaderData" where
  "sample_sd_no_bsdf = \<lparr> shader_flag = 0, diffuse_bounces = 1, glossy_bounces = 1,
     transmission_bounces = 1, randb_closure = 1/2,
     closure = [sample_closure 40 (make_float3 1 1 1) 1 0,
                sample_closure 41 (make_float3 1 1 1) 1 0],
     num_closure = 2 \<rparr>"

text \<open>A shading point with four closures in an array of capacity five: the first and the
  third are diffuse closures with the same parameters.\<close>

definition sample_sd_merge :: "nat ShaderData" where
  "sample_sd_merge = \<lparr> shader_flag = 0, diffuse_bounces = 1, glossy_bounces = 1,
     transmission_bounces = 1, randb_closure = 0,
     closure = [sample_closure 2 (make_float3 (1/2) (1/2) (1/2)) 1 0,
                sample_closure 9 (make_float3 1 1 1) 2 5,
                sample_closure 2 (make_float3 (1/4) (1/4) (1/4)) 3 0,
                sample_closure 40 (make_float3 1 2 3) 0 0,
                sample_closure 0 (make_float3 0 0 0) 0 0],
     num_closure = 4 \<rparr>"

text \<open>Closure functions for evaluation: every closure samples the direction (0, 0, 1) as a
  diffuse reflection with pdf 1 and value (1, 1, 1); at any direction the diffuse closure
  (type 2) has pdf 1 and every other closure pdf 0, as a lobe that does not contain
  the direction; closures merge when their parameters are equal; a \<open>BsdfEval\<close> is
  a single colour.\<close>

definition sample_fns :: "(nat, float3, unit) closure_functions" where
  "sample_fns = \<lparr>
     bsdf_sample = (\<lambda>kg sd sc randu randv omega domega.
                      (6, make_float3 1 1 1, make_float3 0 0 1, (), 1)),
     bsdf_eval = (\<lambda>kg sd sc omega. if type sc = 2 then (make_float3 1 1 1, 1)
                                     else (make_float3 0 0 0, 0)),
     bsdf_merge = (\<lambda>a b. data a = data b),
     bsdf_eval_init = (\<lambda>e t v l. v),
     bsdf_eval_accum = (\<lambda>e t v w. add3 e v) \<rparr>"

definition sample_out :: "(float3, unit) sample_result" where
  "sample_out = \<lparr> bsdf_eval_out = make_float3 0 0 0, omega_in = make_float3 1 0 0,
     domega_in = (), pdf = 7 \<rparr>"

lemmas sample_sd_defs =
  sample_closure_def sample_sd_alpha_def sample_sd_volume_def sample_sd_two_bsdf_def
  sample_sd_two_diffuse_def sample_sd_merge_def
  sample_sd_no_bsdf_def sample_fns_def sample_out_def

text \<open>An environment with pink as the colour of a missing texture, in which the file
  \<open>wood.png\<close> does not exist and the file \<open>stone.png\<close> opens as an image of 2x1
  pixels with four channels whose pixels cannot be read: \<open>read_image\<close> returns false
  and writes nothing. Storage that has not been written holds 1/2. The manager has the
  image of \<open>wood.png\<close> at slot 0 of the four-channel float images, of the four-channel
  byte images and of the one-channel float images, and the image of \<open>stone.png\<close> at
  slot 1 of the four-channel float images. The device scene has room for all of them
  but the one-channel float image.\<close>

definition sample_image_env :: "(nat, nat) image_env" where
  "sample_image_env = \<lparr>
     TEX_IMAGE_MISSING_R = 1, TEX_IMAGE_MISSING_G = 0, TEX_IMAGE_MISSING_B = 1,
     TEX_IMAGE_MISSING_A = 1,
     type_index = (\<lambda>t. case t of
         IMAGE_DATA_TYPE_FLOAT4 \<Rightarrow> 0 | IMAGE_DATA_TYPE_BYTE4 \<Rightarrow> 1 | IMAGE_DATA_TYPE_HALF4 \<Rightarrow> 2
       | IMAGE_DATA_TYPE_FLOAT \<Rightarrow> 3 | IMAGE_DATA_TYPE_BYTE \<Rightarrow> 4 | IMAGE_DATA_TYPE_HALF \<Rightarrow> 5
       | IMAGE_DATA_TYPE_USHORT4 \<Rightarrow> 6 | IMAGE_DATA_TYPE_USHORT \<Rightarrow> 7),
     texture_limit = 0,
     float_to_half = (\<lambda>v. v),
     half_mul_div255 = (\<lambda>x y. x * y / 255),
     uninitialized = (\<lambda>i. 1 / 2),
     path_exists = (\<lambda>name. name = ''stone.png''),
     path_is_directory = (\<lambda>name. False),
     ImageInput_create = (\<lambda>name. Some 0),
     ImageInput_open = (\<lambda>i name unassociated_alpha.
        Some \<lparr>spec_width = 2, spec_height = 1, spec_depth = 1, nchannels = 4\<rparr>),
     read_image = (\<lambda>i format bottom_up. (False, [])),
     format_name = (\<lambda>i. ''png''),
     builtin_image_info_cb = None,
     builtin_image_pixels_cb = None,
     builtin_image_float_pixels_cb = None,
     util_image_resize_pixels = (\<lambda>pixels width height depth components scale_factor.
        (pixels, width, height, depth)),
     get_tx = (\<lambda>img. (False, filename img)),
     get_texture_handle = (\<lambda>name. None) \<rparr>"

definition sample_image :: Image where
  "sample_image = \<lparr> filename = ''wood.png'', builtin_data = False, generated_data = None,
     use_alpha = True, need_load = True,
     interpolation = INTERPOLATION_LINEAR, extension = EXTENSION_REPEAT \<rparr>"

definition sample_unread_image :: Image where
  "sample_unread_image = \<lparr> filename = ''stone.png'', builtin_data = False,
     generated_data = None, use_alpha = True, need_load = True,
     interpolation = INTERPOLATION_LINEAR, extension = EXTENSION_REPEAT \<rparr>"

definition sample_image_state :: "nat image_state" where
  "sample_image_state = \<lparr>
     images = (\<lambda>t. if t = IMAGE_DATA_TYPE_FLOAT4
                    then [Some sample_image, Some sample_unread_image]
                    else if t = IMAGE_DATA_TYPE_BYTE4 \<or> t = IMAGE_DATA_TYPE_FLOAT
                    then [Some sample_image] else []),
     pack_images = False, oiio_texture_system = False, cuda_fermi_limits = False,
     cancel = False,
     tex_image = (\<lambda>t. if t = IMAGE_DATA_TYPE_FLOAT4 then [None, None]
                       else if t = IMAGE_DATA_TYPE_BYTE4 then [None] else []),
     kernel_textures = (\<lambda>name. None),
     oiio_memory = None \<rparr>"

definition sample_empty_texture :: "nat OIIOTexture" where
  "sample_empty_texture = \<lparr> handle = None, oiio_interpolation = InterpClosest,
     oiio_extension = WrapBlack, is_linear = False \<rparr>"

lemmas sample_image_defs =
  sample_image_env_def sample_image_def sample_unread_image_def sample_image_state_def
  sample_empty_texture_def

text \<open>A device with three worker threads and one queued task; a shader evaluation of 1000
  pixels and a film conversion of 10 rows.\<close>

definition sample_shader_task :: DeviceTask where
  "sample_shader_task = \<lparr> task_type = SHADER, task_x = 0, task_y = 0, task_w = 0, task_h = 0,
     shader_x = 0, shader_w = 1000 \<rparr>"

definition sample_film_task :: DeviceTask where
  "sample_film_task = \<lparr> task_type = FILM_CONVERT, task_x = 0, task_y = 0, task_w = 64, task_h = 10,
     shader_x = 0, shader_w = 0 \<rparr>"

definition sample_device :: CPUDevice where
  "sample_device = \<lparr> num_threads = 3, task_pool = [sample_film_task] \<rparr>"

lemmas sample_task_defs = sample_shader_task_def sample_film_task_def sample_device_def
section \<open>Bit mask lemmas\<close>

lemma and_not_keep: "(d::32 word) AND m = 0 \<Longrightarrow> (f AND NOT m) AND d = f AND d"
  by (auto simp: bit_eq_iff bit_and_iff bit_not_iff)

lemma and_not_keep2: "(d::32 word) AND a = 0 \<Longrightarrow> (f AND NOT a AND g) AND d = (f AND g) AND d"
  by (auto simp: bit_eq_iff bit_and_iff bit_not_iff)

lemma or_keep: "(f::32 word) AND d = d \<Longrightarrow> (f OR m) AND d = d"
  by (auto simp: bit_eq_iff bit_and_iff bit_or_iff)

lemma or_set: "((f::32 word) OR (a OR d)) AND d = d"
  by (auto simp: bit_eq_iff bit_and_iff bit_or_iff)

section \<open>Termination probability\<close>

text \<open>
  C1. For a path state without the transparent flag, \<open>path_state_terminate_probability\<close>
  returns 0 as soon as one bounce counter has reached its maximum: the total and the
  volume counter against the integrator's maxima (the volume counter exists only where
  \<open>__VOLUME__\<close> is defined), the diffuse, glossy and transmission counters against the
  shading point's own maxima when its shader has \<open>SD_SHADER_OVERRIDE_BOUNCES\<close> and
  against the integrator's otherwise. It returns 1 when no maximum is reached and the
  total bounce counter is at most the integrator's \<open>min_bounce\<close>.
\<close>

theorem terminate_probability_bounce_limits:
  assumes "\<not> has_flag (flag state) (PATH_RAY_TRANSPARENT kt)"
  shows "(bounce state \<ge> max_bounce (integrator kg)
          \<or> diffuse_bounce state \<ge> (if has_flag (shader_flag sd) (SD_SHADER_OVERRIDE_BOUNCES kt)
                then diffuse_bounces sd else max_diffuse_bounce (integrator kg))
          \<or> glossy_bounce state \<ge> (if has_flag (shader_flag sd) (SD_SHADER_OVERRIDE_BOUNCES kt)
                then glossy_bounces sd else max_glossy_bounce (integrator kg))
          \<or> transmission_bounce state \<ge> (if has_flag (shader_flag sd) (SD_SHADER_OVERRIDE_BOUNCES kt)
                then transmission_bounces sd else max_transmission_bounce (integrator kg))
          \<or> (defined_VOLUME kt \<and> volume_bounce state \<ge> max_volume_bounce (integrator kg))
         \<longrightarrow> path_state_terminate_probability kt kg state sd throughput = 0)
       \<and> (bounce state < max_bounce (integrator kg)
          \<and> diffuse_bounce state < (if has_flag (shader_flag sd) (SD_SHADER_OVERRIDE_BOUNCES kt)
                then diffuse_bounces sd else max_diffuse_bounce (integrator kg))
          \<and> glossy_bounce state < (if has_flag (shader_flag sd) (SD_SHADER_OVERRIDE_BOUNCES kt)
                then glossy_bounces sd else max_glossy_bounce (integrator kg))
          \<and> transmission_bounce state < (if has_flag (shader_flag sd) (SD_SHADER_OVERRIDE_BOUNCES kt)
                then transmission_bounces sd else max_transmission_bounce (integrator kg))
          \<and> (defined_VOLUME kt \<longrightarrow> volume_bounce state < max_volume_bounce (integrator kg))
          \<and> bounce state \<le> min_bounce (integrator kg)
         \<longrightarrow> path_state_terminate_probability kt kg state sd throughput = 1)"
  using assms by (auto simp: path_state_terminate_probability_def)

text \<open>At the sample settings: with the shader's override, one diffuse bounce is the
  maximum and the path is cut; after two bounces in all and no maximum reached, the path
  continues.\<close>

theorem terminate_probability_bounce_limits_witness:
  "\<not> has_flag (flag sample_state) (PATH_RAY_TRANSPARENT sample_kernel_types)
   \<and> has_flag (shader_flag (sample_sd\<lparr>shader_flag := 1\<rparr>)) (SD_SHADER_OVERRIDE_BOUNCES sample_kernel_types)
   \<and> diffuse_bounce sample_state \<ge> diffuse_bounces (sample_sd\<lparr>shader_flag := 1\<rparr>)
   \<and> path_state_terminate_probability sample_kernel_types sample_kg sample_state
        (sample_sd\<lparr>shader_flag := 1\<rparr>) (make_float3 2 2 2) = 0
   \<and> bounce (sample_state\<lparr>bounce := 2\<rparr>) \<le> min_bounce (integrator sample_kg)
   \<and> path_state_terminate_probability sample_kernel_types sample_kg (sample_state\<lparr>bounce := 2\<rparr>)
        sample_sd (make_float3 2 2 2) = 1"
proof -
  let ?kt = sample_kernel_types
  let ?sd = "sample_sd\<lparr>shader_flag := 1\<rparr>"
  let ?s = "sample_state\<lparr>bounce := 2\<rparr>"
  have nt: "\<not> has_flag (flag sample_state) (PATH_RAY_TRANSPARENT ?kt)"
    by (simp add: has_flag_def sample_defs)
  have nt2: "\<not> has_flag (flag ?s) (PATH_RAY_TRANSPARENT ?kt)"
    by (simp add: has_flag_def sample_defs)
  have ov: "has_flag (shader_flag ?sd) (SD_SHADER_OVERRIDE_BOUNCES ?kt)"
    by (simp add: has_flag_def sample_defs)
  have d: "diffuse_bounce sample_state \<ge> diffuse_bounces ?sd"
    by (simp add: sample_defs)
  have lo: "bounce ?s \<le> min_bounce (integrator sample_kg)"
    by (simp add: sample_defs)
  have below: "bounce ?s < max_bounce (integrator sample_kg)
      \<and> diffuse_bounce ?s < (if has_flag (shader_flag sample_sd) (SD_SHADER_OVERRIDE_BOUNCES ?kt)
            then diffuse_bounces sample_sd else max_diffuse_bounce (integrator sample_kg))
      \<and> glossy_bounce ?s < (if has_flag (shader_flag sample_sd) (SD_SHADER_OVERRIDE_BOUNCES ?kt)
            then glossy_bounces sample_sd else max_glossy_bounce (integrator sample_kg))
      \<and> transmission_bounce ?s < (if has_flag (shader_flag sample_sd) (SD_SHADER_OVERRIDE_BOUNCES ?kt)
            then transmission_bounces sample_sd else max_transmission_bounce (integrator sample_kg))
      \<and> (defined_VOLUME ?kt \<longrightarrow> volume_bounce ?s < max_volume_bounce (integrator sample_kg))"
    by (simp add: has_flag_def sample_defs)
  have zero: "path_state_terminate_probability ?kt sample_kg sample_state ?sd (make_float3 2 2 2) = 0"
    using terminate_probability_bounce_limits [OF nt, of sample_kg ?sd "make_float3 2 2 2"] ov d
    by presburger
  have one: "path_state_terminate_probability ?kt sample_kg ?s sample_sd (make_float3 2 2 2) = 1"
    using terminate_probability_bounce_limits [OF nt2, of sample_kg sample_sd "make_float3 2 2 2"]
      below lo
    by presburger
  from nt ov d zero lo one show ?thesis by blast
qed

text \<open>
  C5. Away from the forced cases the function returns the average of the throughput's
  three channels, whatever its size: the value lies strictly between 0 and 1 exactly
  when the channels sum to more than 0 and less than 3.
\<close>

theorem terminate_probability_roulette:
  assumes "if has_flag (flag state) (PATH_RAY_TRANSPARENT kt)
           then transparent_min_bounce (integrator kg) < transparent_bounce state
              \<and> transparent_bounce state < transparent_max_bounce (integrator kg)
           else min_bounce (integrator kg) < bounce state
              \<and> bounce state < max_bounce (integrator kg)
              \<and> diffuse_bounce state < (if has_flag (shader_flag sd) (SD_SHADER_OVERRIDE_BOUNCES kt)
                    then diffuse_bounces sd else max_diffuse_bounce (integrator kg))
              \<and> glossy_bounce state < (if has_flag (shader_flag sd) (SD_SHADER_OVERRIDE_BOUNCES kt)
                    then glossy_bounces sd else max_glossy_bounce (integrator kg))
              \<and> transmission_bounce state < (if has_flag (shader_flag sd) (SD_SHADER_OVERRIDE_BOUNCES kt)
                    then transmission_bounces sd else max_transmission_bounce (integrator kg))
              \<and> (defined_VOLUME kt \<longrightarrow> volume_bounce state < max_volume_bounce (integrator kg))"
  shows "path_state_terminate_probability kt kg state sd throughput = average throughput
       \<and> (0 < path_state_terminate_probability kt kg state sd throughput
          \<and> path_state_terminate_probability kt kg state sd throughput < 1
          \<longleftrightarrow> 0 < f3x throughput + f3y throughput + f3z throughput
            \<and> f3x throughput + f3y throughput + f3z throughput < 3)"
  using assms by (auto simp: path_state_terminate_probability_def average_def split: if_splits)

text \<open>At the sample settings the path is past the minimum and below every maximum; a
  throughput of (1/2, 1/4, 3/4) gives the probability 1/2.\<close>

theorem terminate_probability_roulette_witness:
  "\<not> has_flag (flag sample_state) (PATH_RAY_TRANSPARENT sample_kernel_types)
   \<and> min_bounce (integrator sample_kg) < bounce sample_state
   \<and> path_state_terminate_probability sample_kernel_types sample_kg sample_state sample_sd
        (make_float3 (1/2) (1/4) (3/4)) = 1/2"
proof -
  let ?kt = sample_kernel_types
  have nt: "\<not> has_flag (flag sample_state) (PATH_RAY_TRANSPARENT ?kt)"
    by (simp add: has_flag_def sample_defs)
  have lo: "min_bounce (integrator sample_kg) < bounce sample_state"
    by (simp add: sample_defs)
  have h: "if has_flag (flag sample_state) (PATH_RAY_TRANSPARENT ?kt)
           then transparent_min_bounce (integrator sample_kg) < transparent_bounce sample_state
              \<and> transparent_bounce sample_state < transparent_max_bounce (integrator sample_kg)
           else min_bounce (integrator sample_kg) < bounce sample_state
              \<and> bounce sample_state < max_bounce (integrator sample_kg)
              \<and> diffuse_bounce sample_state < (if has_flag (shader_flag sample_sd) (SD_SHADER_OVERRIDE_BOUNCES ?kt)
                    then diffuse_bounces sample_sd else max_diffuse_bounce (integrator sample_kg))
              \<and> glossy_bounce sample_state < (if has_flag (shader_flag sample_sd) (SD_SHADER_OVERRIDE_BOUNCES ?kt)
                    then glossy_bounces sample_sd else max_glossy_bounce (integrator sample_kg))
              \<and> transmission_bounce sample_state < (if has_flag (shader_flag sample_sd) (SD_SHADER_OVERRIDE_BOUNCES ?kt)
                    then transmission_bounces sample_sd else max_transmission_bounce (integrator sample_kg))
              \<and> (defined_VOLUME ?kt \<longrightarrow> volume_bounce sample_state < max_volume_bounce (integrator sample_kg))"
    by (simp add: has_flag_def sample_defs)
  have "average (make_float3 (1/2) (1/4) (3/4)) = 1/2"
    by (simp add: average_def)
  with terminate_probability_roulette [OF h, of "make_float3 (1/2) (1/4) (3/4)"]
  have "path_state_terminate_probability ?kt sample_kg sample_state sample_sd
          (make_float3 (1/2) (1/4) (3/4)) = 1/2"
    by argo
  with nt lo show ?thesis by blast
qed


text \<open>The same path with a throughput of (2, 2, 2), as after a bounce whose weight
  exceeds its pdf, gets the value 2, and with a black throughput the value 0: neither
  lies strictly between 0 and 1.\<close>

theorem terminate_probability_roulette_counterexample:
  "\<not> has_flag (flag sample_state) (PATH_RAY_TRANSPARENT sample_kernel_types)
   \<and> min_bounce (integrator sample_kg) < bounce sample_state
   \<and> bounce sample_state < max_bounce (integrator sample_kg)
   \<and> \<not> has_flag (shader_flag sample_sd) (SD_SHADER_OVERRIDE_BOUNCES sample_kernel_types)
   \<and> diffuse_bounce sample_state < max_diffuse_bounce (integrator sample_kg)
   \<and> glossy_bounce sample_state < max_glossy_bounce (integrator sample_kg)
   \<and> transmission_bounce sample_state < max_transmission_bounce (integrator sample_kg)
   \<and> volume_bounce sample_state < max_volume_bounce (integrator sample_kg)
   \<and> path_state_terminate_probability sample_kernel_types sample_kg sample_state sample_sd
        (make_float3 2 2 2) = 2
   \<and> path_state_terminate_probability sample_kernel_types sample_kg sample_state sample_sd
        (make_float3 0 0 0) = 0
   \<and> \<not> (0 < path_state_terminate_probability sample_kernel_types sample_kg sample_state sample_sd
              (make_float3 2 2 2)
        \<and> path_state_terminate_probability sample_kernel_types sample_kg sample_state sample_sd
              (make_float3 2 2 2) < 1)"
  by (simp add: path_state_terminate_probability_def average_def has_flag_def sample_defs)

section \<open>Transitions\<close>

text \<open>
  C2. With the transparent bit in the label, \<open>path_state_next\<close> returns a state in which
  \<open>transparent_bounce\<close> is one more and the total, diffuse, glossy, transmission and
  volume counters, the RNG offset and every other field are as before. No flag is
  cleared: the new flags are the old ones together with \<open>PATH_RAY_TRANSPARENT\<close> and,
  when transparent shadows are off, \<open>PATH_RAY_MIS_SKIP\<close>.
\<close>

theorem path_state_next_transparent_frame:
  assumes "has_flag label (LABEL_TRANSPARENT kt)"
  shows "\<exists>state'. path_state_next kt kg state label = Inr state'
           \<and> transparent_bounce state' = transparent_bounce state + 1
           \<and> bounce state' = bounce state
           \<and> diffuse_bounce state' = diffuse_bounce state
           \<and> glossy_bounce state' = glossy_bounce state
           \<and> transmission_bounce state' = transmission_bounce state
           \<and> volume_bounce state' = volume_bounce state
           \<and> rng_offset state' = rng_offset state
           \<and> denoising_feature_weight state' = denoising_feature_weight state
           \<and> PathState.more state' = PathState.more state
           \<and> flag state AND flag state' = flag state
           \<and> flag state' = (flag state OR PATH_RAY_TRANSPARENT kt)
                              OR (if transparent_shadows (integrator kg) = 0
                                  then PATH_RAY_MIS_SKIP kt else 0)"
  using assms by (auto simp: path_state_next_def path_state_next_transparent_def Let_def
      bit_eq_iff bit_and_iff bit_or_iff)

theorem path_state_next_transparent_frame_witness:
  "has_flag 36 (LABEL_TRANSPARENT sample_kernel_types)
   \<and> path_state_next sample_kernel_types sample_kg sample_state 36 =
       Inr (sample_state\<lparr>flag := 321, transparent_bounce := 1\<rparr>)"
proof -
  have h: "has_flag 36 (LABEL_TRANSPARENT sample_kernel_types)"
    by (simp add: has_flag_def sample_defs)
  obtain s' where s: "path_state_next sample_kernel_types sample_kg sample_state 36 = Inr s'"
    and tb: "transparent_bounce s' = transparent_bounce sample_state + 1"
    and b: "bounce s' = bounce sample_state"
    and d: "diffuse_bounce s' = diffuse_bounce sample_state"
    and g: "glossy_bounce s' = glossy_bounce sample_state"
    and t: "transmission_bounce s' = transmission_bounce sample_state"
    and v: "volume_bounce s' = volume_bounce sample_state"
    and r: "rng_offset s' = rng_offset sample_state"
    and w: "denoising_feature_weight s' = denoising_feature_weight sample_state"
    and m: "PathState.more s' = PathState.more sample_state"
    and f: "flag s' = (flag sample_state OR PATH_RAY_TRANSPARENT sample_kernel_types)
              OR (if transparent_shadows (integrator sample_kg) = 0
                  then PATH_RAY_MIS_SKIP sample_kernel_types else 0)"
    using path_state_next_transparent_frame [OF h, of sample_kg sample_state] by blast
  have "s' = sample_state\<lparr>flag := 321, transparent_bounce := 1\<rparr>"
    using tb b d g t v r w m f by (cases s') (simp add: sample_defs)
  with h s show ?thesis by simp
qed

text \<open>The ancestor flag survives each part of a transition.\<close>

lemma anc_transparent:
  "diffuse_ancestor_set kt s \<Longrightarrow> diffuse_ancestor_set kt (path_state_next_transparent kt kg s)"
  by (simp add: diffuse_ancestor_set_def path_state_next_transparent_def Let_def or_keep)

lemma anc_volume:
  "diffuse_ancestor_own_bit kt \<Longrightarrow> diffuse_ancestor_set kt s \<Longrightarrow>
   diffuse_ancestor_set kt (path_state_next_volume kt s)"
  by (simp add: diffuse_ancestor_set_def path_state_next_volume_def Let_def or_keep and_not_keep
      and_not_keep2 diffuse_ancestor_own_bit_def)

lemma anc_reflect_transmit:
  "diffuse_ancestor_own_bit kt \<Longrightarrow> diffuse_ancestor_set kt s \<Longrightarrow>
   path_state_next_reflect_transmit kt s label = Inr s' \<Longrightarrow> diffuse_ancestor_set kt s'"
  by (auto simp: diffuse_ancestor_set_def path_state_next_reflect_transmit_def Let_def or_keep
      and_not_keep and_not_keep2 diffuse_ancestor_own_bit_def kernel_assert_def split: if_splits)

lemma anc_scatter_type:
  "diffuse_ancestor_own_bit kt \<Longrightarrow> diffuse_ancestor_set kt s \<Longrightarrow>
   path_state_next_scatter_type kt s label = Inr s' \<Longrightarrow> diffuse_ancestor_set kt s'"
  by (auto simp: diffuse_ancestor_set_def path_state_next_scatter_type_def Let_def or_keep
      and_not_keep and_not_keep2 diffuse_ancestor_own_bit_def kernel_assert_def split: if_splits)

lemma anc_scatter_type_diffuse:
  "diffuse_ancestor_own_bit kt \<Longrightarrow> has_flag label (LABEL_DIFFUSE kt) \<Longrightarrow>
   path_state_next_scatter_type kt s label = Inr s' \<Longrightarrow> diffuse_ancestor_set kt s'"
  by (auto simp: diffuse_ancestor_set_def path_state_next_scatter_type_def Let_def or_set
      and_not_keep and_not_keep2 diffuse_ancestor_own_bit_def split: if_splits)

lemma anc_finish:
  "diffuse_ancestor_own_bit kt \<Longrightarrow> diffuse_ancestor_set kt s \<Longrightarrow>
   diffuse_ancestor_set kt (path_state_next_finish kt s)"
  by (simp add: diffuse_ancestor_set_def path_state_next_finish_def Let_def and_not_keep
      diffuse_ancestor_own_bit_def)

lemma anc_bounce: "diffuse_ancestor_set kt (s\<lparr>bounce := b\<rparr>) = diffuse_ancestor_set kt s"
  by (simp add: diffuse_ancestor_set_def)

lemma anc_next:
  assumes own: "diffuse_ancestor_own_bit kt" and a: "diffuse_ancestor_set kt s"
    and step: "path_state_next kt kg s label = Inr s'"
  shows "diffuse_ancestor_set kt s'"
proof (cases "has_flag label (LABEL_TRANSPARENT kt)")
  case True
  with step have "s' = path_state_next_transparent kt kg s"
    by (simp add: path_state_next_def)
  with a show ?thesis by (simp add: anc_transparent)
next
  case False
  let ?s = "s\<lparr>bounce := bounce s + 1\<rparr>"
  have b: "diffuse_ancestor_set kt ?s" using a by (simp add: anc_bounce)
  show ?thesis
  proof (cases "defined_VOLUME kt \<and> has_flag label (LABEL_VOLUME_SCATTER kt)")
    case True
    with step False have "s' = path_state_next_finish kt (path_state_next_volume kt ?s)"
      by (simp add: path_state_next_def Let_def)
    with own b show ?thesis by (simp add: anc_finish anc_volume)
  next
    case surface: False
    from step False surface obtain s1 s2
      where r: "path_state_next_reflect_transmit kt ?s label = Inr s1"
        and t: "path_state_next_scatter_type kt s1 label = Inr s2"
        and f: "s' = path_state_next_finish kt s2"
      by (auto simp: path_state_next_def Let_def split: sum.splits)
    from own b r have "diffuse_ancestor_set kt s1" by (rule anc_reflect_transmit)
    with own have "diffuse_ancestor_set kt s2" using t by (rule anc_scatter_type)
    with own f show ?thesis by (simp add: anc_finish)
  qed
qed

lemma anc_next_diffuse:
  assumes own: "diffuse_ancestor_own_bit kt"
    and d: "has_flag label (LABEL_DIFFUSE kt)"
    and nt: "\<not> has_flag label (LABEL_TRANSPARENT kt)"
    and nv: "\<not> (defined_VOLUME kt \<and> has_flag label (LABEL_VOLUME_SCATTER kt))"
    and step: "path_state_next kt kg s label = Inr s'"
  shows "diffuse_ancestor_set kt s'"
proof -
  let ?s = "s\<lparr>bounce := bounce s + 1\<rparr>"
  from step nt nv obtain s1 s2
    where t: "path_state_next_scatter_type kt s1 label = Inr s2"
      and f: "s' = path_state_next_finish kt s2"
    by (auto simp: path_state_next_def Let_def split: sum.splits)
  from own d t have "diffuse_ancestor_set kt s2" by (rule anc_scatter_type_diffuse)
  with own f show ?thesis by (simp add: anc_finish)
qed

lemma anc_next_all:
  assumes "diffuse_ancestor_own_bit kt"
  shows "diffuse_ancestor_set kt s \<Longrightarrow> path_state_next_all kt kg s labels = Inr s' \<Longrightarrow>
         diffuse_ancestor_set kt s'"
proof (induction labels arbitrary: s)
  case Nil
  then show ?case by simp
next
  case (Cons l ls)
  then show ?case using assms by (auto split: sum.splits dest: anc_next)
qed

lemma path_state_next_total:
  "\<not> kernel_assert_checks kt \<Longrightarrow> \<exists>s'. path_state_next kt kg s label = Inr s'"
  by (simp add: path_state_next_def path_state_next_reflect_transmit_def
      path_state_next_scatter_type_def kernel_assert_def Let_def)

lemma path_state_next_all_total:
  assumes "\<not> kernel_assert_checks kt"
  shows "\<exists>s'. path_state_next_all kt kg s labels = Inr s'"
proof (induction labels arbitrary: s)
  case Nil
  show ?case by simp
next
  case (Cons l ls)
  from path_state_next_total [OF assms] obtain s1 where "path_state_next kt kg s l = Inr s1"
    by blast
  with Cons show ?case by simp
qed

text \<open>
  C7. A bounce whose label has the diffuse bit (and is neither a transparent pass nor a
  volume scatter) sets \<open>PATH_RAY_DIFFUSE_ANCESTOR\<close>; from a state in which the flag is
  set, every sequence of further transitions, whatever the labels, ends in a state in
  which it is still set. Where assertions are compiled out every sequence of
  transitions does end in a state.
\<close>

theorem diffuse_ancestor_sticky:
  assumes "diffuse_ancestor_own_bit kt"
  shows "(has_flag d (LABEL_DIFFUSE kt) \<and> \<not> has_flag d (LABEL_TRANSPARENT kt)
            \<and> \<not> (defined_VOLUME kt \<and> has_flag d (LABEL_VOLUME_SCATTER kt))
            \<and> path_state_next kt kg s0 d = Inr s
          \<longrightarrow> diffuse_ancestor_set kt s)
       \<and> (diffuse_ancestor_set kt s \<and> path_state_next_all kt kg s labels = Inr s'
          \<longrightarrow> diffuse_ancestor_set kt s' \<and> has_flag (flag s') (PATH_RAY_DIFFUSE_ANCESTOR kt))
       \<and> (\<not> kernel_assert_checks kt \<longrightarrow> (\<exists>s''. path_state_next_all kt kg s labels = Inr s''))"
proof -
  have nz: "PATH_RAY_DIFFUSE_ANCESTOR kt \<noteq> 0"
    using assms by (simp add: diffuse_ancestor_own_bit_def)
  have "diffuse_ancestor_set kt s' \<Longrightarrow> has_flag (flag s') (PATH_RAY_DIFFUSE_ANCESTOR kt)"
    using nz by (simp add: diffuse_ancestor_set_def has_flag_def)
  then show ?thesis
    using assms anc_next_diffuse anc_next_all path_state_next_all_total by blast
qed

text \<open>A diffuse reflection followed by a glossy reflection, a singular transmission, a
  volume scatter, a transparent pass and a transmission.\<close>

theorem diffuse_ancestor_sticky_witness:
  "diffuse_ancestor_own_bit sample_kernel_types
   \<and> has_flag 6 (LABEL_DIFFUSE sample_kernel_types)
   \<and> path_state_next sample_kernel_types sample_kg sample_state 6 =
       Inr (sample_state\<lparr>flag := 522, rng_offset := 8, bounce := 6, diffuse_bounce := 2\<rparr>)
   \<and> path_state_next_all sample_kernel_types sample_kg
        (sample_state\<lparr>flag := 522, rng_offset := 8, bounce := 6, diffuse_bounce := 2\<rparr>)
        [10, 17, 64, 32, 1] =
       Inr \<lparr>flag = 820, rng_offset = 40, bounce = 10, diffuse_bounce = 2, glossy_bounce = 2,
            transmission_bounce = 4, transparent_bounce = 1, volume_bounce = 2,
            denoising_feature_weight = 0\<rparr>
   \<and> has_flag 820 (PATH_RAY_DIFFUSE_ANCESTOR sample_kernel_types)"
proof -
  let ?kt = sample_kernel_types
  let ?s = "sample_state\<lparr>flag := 522, rng_offset := 8, bounce := 6, diffuse_bounce := 2\<rparr>"
  let ?s' = "\<lparr>flag = 820, rng_offset = 40, bounce = 10, diffuse_bounce = 2, glossy_bounce = 2,
            transmission_bounce = 4, transparent_bounce = 1, volume_bounce = 2,
            denoising_feature_weight = 0\<rparr>"
  have own: "diffuse_ancestor_own_bit ?kt"
    by (simp add: diffuse_ancestor_own_bit_def sample_defs)
  have l: "has_flag 6 (LABEL_DIFFUSE ?kt)" "\<not> has_flag 6 (LABEL_TRANSPARENT ?kt)"
    "\<not> (defined_VOLUME ?kt \<and> has_flag 6 (LABEL_VOLUME_SCATTER ?kt))"
    by (simp_all add: has_flag_def sample_defs)
  have step: "path_state_next ?kt sample_kg sample_state 6 = Inr ?s"
    by (simp add: path_state_next_def path_state_next_reflect_transmit_def
        path_state_next_scatter_type_def path_state_next_finish_def kernel_assert_def
        has_flag_def Let_def sample_defs)
  have rest: "path_state_next_all ?kt sample_kg ?s [10, 17, 64, 32, 1] = Inr ?s'"
    by (simp add: path_state_next_def path_state_next_reflect_transmit_def
        path_state_next_scatter_type_def path_state_next_finish_def path_state_next_volume_def
        path_state_next_transparent_def kernel_assert_def
        has_flag_def Let_def sample_defs)
  note sticky = diffuse_ancestor_sticky [OF own, of 6 sample_kg sample_state ?s "[10, 17, 64, 32, 1]" ?s']
  from sticky l step have "diffuse_ancestor_set ?kt ?s" by blast
  with sticky rest have "has_flag (flag ?s') (PATH_RAY_DIFFUSE_ANCESTOR ?kt)" by blast
  then have "has_flag 820 (PATH_RAY_DIFFUSE_ANCESTOR ?kt)" by simp
  with own l(1) step rest show ?thesis by blast
qed

section \<open>Transparency and alpha\<close>

text \<open>A loop over the indices of the closures in use is a loop over these closures.\<close>

lemma fold_index_active:
  assumes "sd_wf sd"
  shows "fold (\<lambda>i. g (closure sd ! i)) [0..<num_closure sd] a = fold g (active sd) a"
proof -
  have "map (\<lambda>i. closure sd ! i) [0..<num_closure sd] = active sd"
    using assms by (auto simp: active_def sd_wf_def intro: nth_equalityI)
  then have "fold g (active sd) a = fold g (map (\<lambda>i. closure sd ! i) [0..<num_closure sd]) a"
    by simp
  also have "\<dots> = fold (\<lambda>i. g (closure sd ! i)) [0..<num_closure sd] a"
    by (simp add: fold_map comp_def)
  finally show ?thesis by simp
qed

lemma fold_transparent_sum:
  "fold (\<lambda>sc eval. if type sc = t then add3 eval (weight sc) else eval) xs a =
   make_float3 (f3x a + sum_list (map (\<lambda>sc. f3x (weight sc)) (filter (\<lambda>sc. type sc = t) xs)))
               (f3y a + sum_list (map (\<lambda>sc. f3y (weight sc)) (filter (\<lambda>sc. type sc = t) xs)))
               (f3z a + sum_list (map (\<lambda>sc. f3z (weight sc)) (filter (\<lambda>sc. type sc = t) xs)))"
  by (induction xs arbitrary: a) (simp_all add: add3_def add.assoc)

lemma shader_bsdf_transparency_sum:
  assumes "sd_wf sd" "\<not> has_flag (shader_flag sd) (SD_SHADER_HAS_ONLY_VOLUME kt)"
  shows "shader_bsdf_transparency kt sd =
           make_float3 (sum_list (transparent_weights kt sd f3x))
                       (sum_list (transparent_weights kt sd f3y))
                       (sum_list (transparent_weights kt sd f3z))"
proof -
  have "shader_bsdf_transparency kt sd =
          fold (\<lambda>sc eval. if type sc = CLOSURE_BSDF_TRANSPARENT_ID kt then add3 eval (weight sc) else eval)
            (active sd) (make_float3 0 0 0)"
    using assms(2) fold_index_active [OF assms(1),
        of "\<lambda>sc eval. if type sc = CLOSURE_BSDF_TRANSPARENT_ID kt then add3 eval (weight sc) else eval"]
    by (simp add: shader_bsdf_transparency_def Let_def)
  then show ?thesis
    by (simp add: fold_transparent_sum transparent_weights_def)
qed

text \<open>
  C10. Every channel of \<open>shader_bsdf_alpha\<close> lies between 0 and 1. For a shader without
  \<open>SD_SHADER_HAS_ONLY_VOLUME\<close> the result is one minus the summed weight of the
  transparent closures in use, clamped per channel; for a shader that has only a
  volume, \<open>shader_bsdf_transparency\<close> is (1, 1, 1) whatever the closures are, and
  alpha is (0, 0, 0).
\<close>

theorem shader_bsdf_alpha_clamped:
  "(sd_wf sd \<and> \<not> has_flag (shader_flag sd) (SD_SHADER_HAS_ONLY_VOLUME kt) \<longrightarrow>
      shader_bsdf_alpha kt sd =
        make_float3 (clamp01 (1 - sum_list (transparent_weights kt sd f3x)))
                    (clamp01 (1 - sum_list (transparent_weights kt sd f3y)))
                    (clamp01 (1 - sum_list (transparent_weights kt sd f3z))))
   \<and> (has_flag (shader_flag sd) (SD_SHADER_HAS_ONLY_VOLUME kt) \<longrightarrow>
        shader_bsdf_alpha kt sd = make_float3 0 0 0)
   \<and> 0 \<le> f3x (shader_bsdf_alpha kt sd) \<and> f3x (shader_bsdf_alpha kt sd) \<le> 1
   \<and> 0 \<le> f3y (shader_bsdf_alpha kt sd) \<and> f3y (shader_bsdf_alpha kt sd) \<le> 1
   \<and> 0 \<le> f3z (shader_bsdf_alpha kt sd) \<and> f3z (shader_bsdf_alpha kt sd) \<le> 1"
proof -
  have a: "sd_wf sd \<and> \<not> has_flag (shader_flag sd) (SD_SHADER_HAS_ONLY_VOLUME kt) \<longrightarrow>
      shader_bsdf_alpha kt sd =
        make_float3 (clamp01 (1 - sum_list (transparent_weights kt sd f3x)))
                    (clamp01 (1 - sum_list (transparent_weights kt sd f3y)))
                    (clamp01 (1 - sum_list (transparent_weights kt sd f3z)))"
    by (simp add: shader_bsdf_alpha_def shader_bsdf_transparency_sum sub3_def max3_def min3_def
        clamp01_def Let_def)
  have b: "has_flag (shader_flag sd) (SD_SHADER_HAS_ONLY_VOLUME kt) \<longrightarrow>
        shader_bsdf_alpha kt sd = make_float3 0 0 0"
    by (simp add: shader_bsdf_alpha_def shader_bsdf_transparency_def sub3_def max3_def min3_def
        Let_def)
  have c: "0 \<le> f3x (shader_bsdf_alpha kt sd) \<and> f3x (shader_bsdf_alpha kt sd) \<le> 1
   \<and> 0 \<le> f3y (shader_bsdf_alpha kt sd) \<and> f3y (shader_bsdf_alpha kt sd) \<le> 1
   \<and> 0 \<le> f3z (shader_bsdf_alpha kt sd) \<and> f3z (shader_bsdf_alpha kt sd) \<le> 1"
    by (simp add: shader_bsdf_alpha_def sub3_def max3_def min3_def Let_def)
  from a b c show ?thesis by blast
qed

text \<open>A transparent closure of weight (1/4, 1/2, 2) gives the alpha (3/4, 1/2, 0); a
  volume-only shader gives (0, 0, 0).\<close>

theorem shader_bsdf_alpha_clamped_witness:
  "sd_wf sample_sd_alpha
   \<and> \<not> has_flag (shader_flag sample_sd_alpha) (SD_SHADER_HAS_ONLY_VOLUME sample_kernel_types)
   \<and> shader_bsdf_alpha sample_kernel_types sample_sd_alpha = make_float3 (3/4) (1/2) 0
   \<and> has_flag (shader_flag sample_sd_volume) (SD_SHADER_HAS_ONLY_VOLUME sample_kernel_types)
   \<and> shader_bsdf_alpha sample_kernel_types sample_sd_volume = make_float3 0 0 0"
proof -
  let ?kt = sample_kernel_types
  have wf: "sd_wf sample_sd_alpha"
    by (simp add: sd_wf_def sample_sd_defs)
  have nv: "\<not> has_flag (shader_flag sample_sd_alpha) (SD_SHADER_HAS_ONLY_VOLUME ?kt)"
    by (simp add: has_flag_def sample_sd_defs sample_defs)
  have v: "has_flag (shader_flag sample_sd_volume) (SD_SHADER_HAS_ONLY_VOLUME ?kt)"
    by (simp add: has_flag_def sample_sd_defs sample_defs)
  have tw: "transparent_weights ?kt sample_sd_alpha f3x = [1/4]"
    "transparent_weights ?kt sample_sd_alpha f3y = [1/2]"
    "transparent_weights ?kt sample_sd_alpha f3z = [2]"
    by (simp_all add: transparent_weights_def active_def sample_sd_defs sample_defs
        eval_nat_numeral)
  have cl: "clamp01 (1 - 1/4) = 3/4" "clamp01 (1 - 1/2) = 1/2" "clamp01 (1 - 2) = 0"
    by (simp_all add: clamp01_def)
  have "shader_bsdf_alpha ?kt sample_sd_alpha = make_float3 (3/4) (1/2) 0"
    using shader_bsdf_alpha_clamped [of sample_sd_alpha ?kt] wf nv tw cl by simp
  moreover have "shader_bsdf_alpha ?kt sample_sd_volume = make_float3 0 0 0"
    using shader_bsdf_alpha_clamped [of sample_sd_volume ?kt] v by blast
  ultimately show ?thesis using wf nv v by blast
qed

text \<open>A volume-only shading point without closures: the summed transparent weight is
  0, one minus it is 1, and alpha is 0.\<close>

theorem shader_bsdf_alpha_counterexample:
  "sum_list (transparent_weights sample_kernel_types sample_sd_volume f3x) = 0
   \<and> sum_list (transparent_weights sample_kernel_types sample_sd_volume f3y) = 0
   \<and> sum_list (transparent_weights sample_kernel_types sample_sd_volume f3z) = 0
   \<and> shader_bsdf_alpha sample_kernel_types sample_sd_volume = make_float3 0 0 0
   \<and> shader_bsdf_alpha sample_kernel_types sample_sd_volume \<noteq>
       make_float3 (clamp01 (1 - sum_list (transparent_weights sample_kernel_types sample_sd_volume f3x)))
                   (clamp01 (1 - sum_list (transparent_weights sample_kernel_types sample_sd_volume f3y)))
                   (clamp01 (1 - sum_list (transparent_weights sample_kernel_types sample_sd_volume f3z)))"
  by (simp add: shader_bsdf_alpha_def shader_bsdf_transparency_def transparent_weights_def
      active_def clamp01_def sub3_def max3_def min3_def has_flag_def Let_def
      sample_sd_defs sample_defs)

section \<open>Sampling a closure\<close>

text \<open>The scan returns an index of the array or \<open>num_closure\<close>; it runs to the end exactly
  when \<open>r\<close> exceeds the cumulative sample weight at every BSDF closure.\<close>

lemma bsdf_cumulative_weight_Suc:
  "bsdf_cumulative_weight kt sd (Suc k) =
     bsdf_cumulative_weight kt sd k
       + (if CLOSURE_IS_BSDF kt (type (closure sd ! k)) then sample_weight (closure sd ! k) else 0)"
  by (simp add: bsdf_cumulative_weight_def)

lemma bsdf_pick_le:
  "sampled \<le> num_closure sd \<Longrightarrow> bsdf_pick kt sd r sampled w \<le> num_closure sd"
proof (induction kt sd r sampled w rule: bsdf_pick.induct)
  case (1 kt sd r sampled w)
  show ?case
  proof (cases "sampled < num_closure sd")
    case True
    then show ?thesis
      using "1.IH" by (subst bsdf_pick.simps) (auto simp: Let_def)
  next
    case False
    with "1.prems" show ?thesis by (subst bsdf_pick.simps) simp
  qed
qed

lemma bsdf_pick_end:
  "sampled \<le> num_closure sd \<Longrightarrow> w = bsdf_cumulative_weight kt sd sampled \<Longrightarrow>
   (bsdf_pick kt sd r sampled w = num_closure sd) =
   (\<forall>k. sampled \<le> k \<and> k < num_closure sd \<and> CLOSURE_IS_BSDF kt (type (closure sd ! k))
        \<longrightarrow> bsdf_cumulative_weight kt sd (Suc k) < r)"
proof (induction kt sd r sampled w rule: bsdf_pick.induct)
  case (1 kt sd r sampled w)
  show ?case
  proof (cases "sampled < num_closure sd")
    case False
    with "1.prems" show ?thesis by (subst bsdf_pick.simps) auto
  next
    case True
    let ?sc = "closure sd ! sampled"
    show ?thesis
    proof (cases "CLOSURE_IS_BSDF kt (type ?sc)")
      case bsdf: True
      let ?w = "w + sample_weight ?sc"
      have w: "?w = bsdf_cumulative_weight kt sd (Suc sampled)"
        using bsdf "1.prems" by (simp add: bsdf_cumulative_weight_Suc)
      show ?thesis
      proof (cases "r \<le> ?w")
        case hit: True
        then have "bsdf_pick kt sd r sampled w = sampled"
          using True bsdf by (subst bsdf_pick.simps) (simp add: Let_def)
        moreover have "\<not> bsdf_cumulative_weight kt sd (Suc sampled) < r"
          using hit w by simp
        ultimately show ?thesis using True bsdf by auto
      next
        case miss: False
        have eq: "bsdf_pick kt sd r sampled w = bsdf_pick kt sd r (Suc sampled) ?w"
          using True bsdf miss by (subst bsdf_pick.simps) (simp add: Let_def)
        have ih: "(bsdf_pick kt sd r (Suc sampled) ?w = num_closure sd) =
          (\<forall>k. Suc sampled \<le> k \<and> k < num_closure sd \<and> CLOSURE_IS_BSDF kt (type (closure sd ! k))
               \<longrightarrow> bsdf_cumulative_weight kt sd (Suc k) < r)"
          using "1.IH"(1) [OF True refl bsdf refl miss] True w by simp
        have here: "bsdf_cumulative_weight kt sd (Suc sampled) < r"
          using miss w by simp
        show ?thesis unfolding eq ih
          using here by (metis Suc_leI le_neq_implies_less Suc_leD le_eq_less_or_eq)
      qed
    next
      case other: False
      have eq: "bsdf_pick kt sd r sampled w = bsdf_pick kt sd r (Suc sampled) w"
        using True other by (subst bsdf_pick.simps) (simp add: Let_def)
      have w: "w = bsdf_cumulative_weight kt sd (Suc sampled)"
        using other "1.prems" by (simp add: bsdf_cumulative_weight_Suc)
      have ih: "(bsdf_pick kt sd r (Suc sampled) w = num_closure sd) =
          (\<forall>k. Suc sampled \<le> k \<and> k < num_closure sd \<and> CLOSURE_IS_BSDF kt (type (closure sd ! k))
               \<longrightarrow> bsdf_cumulative_weight kt sd (Suc k) < r)"
        using "1.IH"(2) [OF True refl other] True w by simp
      show ?thesis unfolding eq ih
        using other by (metis Suc_leI le_neq_implies_less Suc_leD le_eq_less_or_eq)
    qed
  qed
qed

text \<open>
  C6. With more than one closure, the scan of \<open>shader_bsdf_sample\<close> runs off the end
  exactly when the scaled draw exceeds the cumulative sample weight at every BSDF
  closure (in particular when there is no BSDF closure). The function then returns
  \<open>LABEL_NONE\<close> and writes 0 to \<open>*pdf\<close>; the direction, its differential and the
  \<open>BsdfEval\<close> are as the caller passed them, whatever the closure functions are.
\<close>

theorem shader_bsdf_sample_no_event:
  assumes "num_closure sd > 1"
  shows "(bsdf_pick kt sd (randb_closure sd * bsdf_sample_weight_sum kt sd) 0 0 = num_closure sd
            \<longleftrightarrow> (\<forall>k < num_closure sd. CLOSURE_IS_BSDF kt (type (closure sd ! k)) \<longrightarrow>
                    bsdf_cumulative_weight kt sd (Suc k)
                      < randb_closure sd * bsdf_sample_weight_sum kt sd))
       \<and> (bsdf_pick kt sd (randb_closure sd * bsdf_sample_weight_sum kt sd) 0 0 = num_closure sd
            \<longrightarrow> shader_bsdf_sample fns kt kg sd randu randv out = (LABEL_NONE kt, out\<lparr>pdf := 0\<rparr>))"
proof -
  have "bsdf_cumulative_weight kt sd 0 = 0"
    by (simp add: bsdf_cumulative_weight_def)
  then have "(bsdf_pick kt sd (randb_closure sd * bsdf_sample_weight_sum kt sd) 0 0 = num_closure sd)
     = (\<forall>k. 0 \<le> k \<and> k < num_closure sd \<and> CLOSURE_IS_BSDF kt (type (closure sd ! k))
        \<longrightarrow> bsdf_cumulative_weight kt sd (Suc k) < randb_closure sd * bsdf_sample_weight_sum kt sd)"
    by (intro bsdf_pick_end) simp_all
  moreover have "bsdf_pick kt sd (randb_closure sd * bsdf_sample_weight_sum kt sd) 0 0 = num_closure sd
            \<longrightarrow> shader_bsdf_sample fns kt kg sd randu randv out = (LABEL_NONE kt, out\<lparr>pdf := 0\<rparr>)"
    using assms by (simp add: shader_bsdf_sample_def Let_def)
  ultimately show ?thesis by blast
qed

text \<open>Two closures that are not BSDFs: no closure is chosen.\<close>

theorem shader_bsdf_sample_no_event_witness:
  "num_closure sample_sd_no_bsdf > 1
   \<and> bsdf_pick sample_kernel_types sample_sd_no_bsdf
        (randb_closure sample_sd_no_bsdf * bsdf_sample_weight_sum sample_kernel_types sample_sd_no_bsdf)
        0 0 = num_closure sample_sd_no_bsdf
   \<and> shader_bsdf_sample sample_fns sample_kernel_types sample_kg sample_sd_no_bsdf (1/3) (2/3) sample_out
       = (0, \<lparr> bsdf_eval_out = make_float3 0 0 0, omega_in = make_float3 1 0 0,
                domega_in = (), pdf = 0 \<rparr>)"
proof -
  let ?kt = sample_kernel_types
  let ?sd = sample_sd_no_bsdf
  have n: "num_closure ?sd > 1"
    by (simp add: sample_sd_defs)
  have none: "\<forall>k < num_closure ?sd. CLOSURE_IS_BSDF ?kt (type (closure ?sd ! k)) \<longrightarrow>
      bsdf_cumulative_weight ?kt ?sd (Suc k) < randb_closure ?sd * bsdf_sample_weight_sum ?kt ?sd"
    by (simp add: sample_sd_defs sample_defs less_Suc_eq eval_nat_numeral)
  note ne = shader_bsdf_sample_no_event [OF n, of ?kt sample_fns sample_kg "1/3" "2/3" sample_out]
  from ne none have p: "bsdf_pick ?kt ?sd (randb_closure ?sd * bsdf_sample_weight_sum ?kt ?sd) 0 0
      = num_closure ?sd"
    by blast
  with ne have "shader_bsdf_sample sample_fns ?kt sample_kg ?sd (1/3) (2/3) sample_out
      = (LABEL_NONE ?kt, sample_out\<lparr>pdf := 0\<rparr>)"
    by blast
  then have "shader_bsdf_sample sample_fns ?kt sample_kg ?sd (1/3) (2/3) sample_out
      = (0, \<lparr> bsdf_eval_out = make_float3 0 0 0, omega_in = make_float3 1 0 0,
                domega_in = (), pdf = 0 \<rparr>)"
    by (simp add: sample_defs sample_sd_defs)
  with n p show ?thesis by blast
qed

text \<open>The sums that the loop of \<open>_shader_bsdf_multi_eval\<close> accumulates, and the pdf it
  returns when called from \<open>shader_bsdf_sample\<close>.\<close>

lemma multi_eval_fold_sums:
  "snd (fold (multi_eval_step fns kt kg sd omega skip) is (re, sp, ssw)) =
     (sp + sum_list (map (\<lambda>i. snd (bsdf_eval fns kg sd (closure sd ! i) omega)
                               * sample_weight (closure sd ! i))
                      (filter (\<lambda>i. int i \<noteq> skip \<and> CLOSURE_IS_BSDF kt (type (closure sd ! i))) is)),
      ssw + sum_list (map (\<lambda>i. sample_weight (closure sd ! i))
                      (filter (\<lambda>i. int i \<noteq> skip \<and> CLOSURE_IS_BSDF kt (type (closure sd ! i))) is)))"
proof (induction "is" arbitrary: re sp ssw)
  case Nil
  show ?case by simp
next
  case (Cons i "is")
  obtain re' sp' ssw' where step: "multi_eval_step fns kt kg sd omega skip i (re, sp, ssw) = (re', sp', ssw')"
    by (metis prod_cases3)
  have sums: "sp' = sp + (if int i \<noteq> skip \<and> CLOSURE_IS_BSDF kt (type (closure sd ! i))
                           then snd (bsdf_eval fns kg sd (closure sd ! i) omega) * sample_weight (closure sd ! i)
                           else 0)"
    "ssw' = ssw + (if int i \<noteq> skip \<and> CLOSURE_IS_BSDF kt (type (closure sd ! i))
                           then sample_weight (closure sd ! i) else 0)"
    using step by (auto simp: multi_eval_step_def Let_def split: prod.splits if_splits)
  show ?case
    using Cons.IH [of re' sp' ssw'] by (simp add: step sums)
qed

lemma shader_bsdf_multi_eval_pdf:
  "fst (shader_bsdf_multi_eval fns kt kg sd omega (int sampled) re
          (p * sample_weight (closure sd ! sampled)) (sample_weight (closure sd ! sampled)))
   = weighted_average_pdf fns kt kg sd omega sampled p"
proof -
  obtain re' sp' ssw' where f: "fold (multi_eval_step fns kt kg sd omega (int sampled)) [0..<num_closure sd]
       (re, p * sample_weight (closure sd ! sampled), sample_weight (closure sd ! sampled)) = (re', sp', ssw')"
    by (metis prod_cases3)
  from multi_eval_fold_sums [of fns kt kg sd omega "int sampled" "[0..<num_closure sd]" re
      "p * sample_weight (closure sd ! sampled)" "sample_weight (closure sd ! sampled)"] f
  have "(sp', ssw') =
     (p * sample_weight (closure sd ! sampled)
        + sum_list (map (\<lambda>i. snd (bsdf_eval fns kg sd (closure sd ! i) omega) * sample_weight (closure sd ! i))
                      (other_bsdf_closures kt sd sampled)),
      sample_weight (closure sd ! sampled)
        + sum_list (map (\<lambda>i. sample_weight (closure sd ! i)) (other_bsdf_closures kt sd sampled)))"
    by (simp add: other_bsdf_closures_def)
  then show ?thesis
    by (simp add: shader_bsdf_multi_eval_def f weighted_average_pdf_def Let_def)
qed

lemma weighted_average_pdf_ge:
  assumes sw: "0 \<le> sample_weight (closure sd ! sampled)"
    and others: "\<forall>i \<in> set (other_bsdf_closures kt sd sampled).
                   0 \<le> sample_weight (closure sd ! i)
                   \<and> p \<le> snd (bsdf_eval fns kg sd (closure sd ! i) omega)"
    and pos: "0 < sample_weight (closure sd ! sampled)
                  + sum_list (map (\<lambda>i. sample_weight (closure sd ! i)) (other_bsdf_closures kt sd sampled))"
  shows "p \<le> weighted_average_pdf fns kt kg sd omega sampled p"
proof -
  let ?os = "other_bsdf_closures kt sd sampled"
  let ?S = "sum_list (map (\<lambda>i. sample_weight (closure sd ! i)) ?os)"
  let ?N = "sum_list (map (\<lambda>i. snd (bsdf_eval fns kg sd (closure sd ! i) omega)
                              * sample_weight (closure sd ! i)) ?os)"
  let ?sw = "sample_weight (closure sd ! sampled)"
  have "sum_list (map (\<lambda>i. p * sample_weight (closure sd ! i)) ?os) \<le> ?N"
    using others by (intro sum_list_mono) (simp add: mult_right_mono)
  then have "p * ?S \<le> ?N"
    by (simp add: sum_list_const_mult)
  then have "p * (?sw + ?S) \<le> p * ?sw + ?N"
    by (simp add: distrib_left)
  then have "p \<le> (p * ?sw + ?N) / (?sw + ?S)"
    using pos by (simp add: pos_le_divide_eq)
  then show ?thesis
    using pos by (simp add: weighted_average_pdf_def Let_def)
qed

text \<open>
  C4. With more than one closure, a chosen closure and a nonzero pdf \<open>p\<close> from
  \<open>bsdf_sample\<close>, the pdf that \<open>shader_bsdf_sample\<close> returns is the average of \<open>p\<close>
  and of the other BSDF closures' pdfs at the sampled direction, weighted by the sample
  weights. It is at least \<open>p\<close> when the sample weights are not negative, their sum is
  positive and no other BSDF closure has a pdf below \<open>p\<close> at that direction.
\<close>

theorem shader_bsdf_sample_pdf:
  assumes n: "num_closure sd > 1"
    and pick: "bsdf_pick kt sd (randb_closure sd * bsdf_sample_weight_sum kt sd) 0 0 = sampled"
    and lt: "sampled < num_closure sd"
    and samp: "bsdf_sample fns kg sd (closure sd ! sampled) randu randv (omega_in out) (domega_in out)
                 = (label, eval, omega, domega, p)"
    and nz: "p \<noteq> 0"
  shows "fst (shader_bsdf_sample fns kt kg sd randu randv out) = label
       \<and> omega_in (snd (shader_bsdf_sample fns kt kg sd randu randv out)) = omega
       \<and> pdf (snd (shader_bsdf_sample fns kt kg sd randu randv out))
           = weighted_average_pdf fns kt kg sd omega sampled p
       \<and> (0 \<le> sample_weight (closure sd ! sampled)
          \<and> (\<forall>i \<in> set (other_bsdf_closures kt sd sampled).
                 0 \<le> sample_weight (closure sd ! i)
                 \<and> p \<le> snd (bsdf_eval fns kg sd (closure sd ! i) omega))
          \<and> 0 < sample_weight (closure sd ! sampled)
                  + sum_list (map (\<lambda>i. sample_weight (closure sd ! i))
                       (other_bsdf_closures kt sd sampled))
          \<longrightarrow> p \<le> pdf (snd (shader_bsdf_sample fns kt kg sd randu randv out)))"
proof -
  let ?sc = "closure sd ! sampled"
  let ?out1 = "out\<lparr>omega_in := omega, domega_in := domega, pdf := p,
                   bsdf_eval_out := bsdf_eval_init fns (bsdf_eval_out out) (type ?sc)
                                      (mul3 eval (weight ?sc)) (use_light_pass (film kg))\<rparr>"
  obtain p' re where me: "shader_bsdf_multi_eval fns kt kg sd omega (int sampled)
         (bsdf_eval_init fns (bsdf_eval_out out) (type ?sc) (mul3 eval (weight ?sc))
            (use_light_pass (film kg)))
         (p * sample_weight ?sc) (sample_weight ?sc) = (p', re)"
    by (cases "shader_bsdf_multi_eval fns kt kg sd omega (int sampled)
         (bsdf_eval_init fns (bsdf_eval_out out) (type ?sc) (mul3 eval (weight ?sc))
            (use_light_pass (film kg)))
         (p * sample_weight ?sc) (sample_weight ?sc)") blast
  have p': "p' = weighted_average_pdf fns kt kg sd omega sampled p"
    using shader_bsdf_multi_eval_pdf [of fns kt kg sd omega sampled _ p] me
    by (metis fst_conv)
  have res: "shader_bsdf_sample fns kt kg sd randu randv out =
          (label, ?out1\<lparr>bsdf_eval_out := re, pdf := p'\<rparr>)"
    using n pick lt samp nz me
    by (simp add: shader_bsdf_sample_def shader_bsdf_sample_chosen_def Let_def)
  have ge: "0 \<le> sample_weight (closure sd ! sampled)
          \<and> (\<forall>i \<in> set (other_bsdf_closures kt sd sampled).
                 0 \<le> sample_weight (closure sd ! i)
                 \<and> p \<le> snd (bsdf_eval fns kg sd (closure sd ! i) omega))
          \<and> 0 < sample_weight (closure sd ! sampled)
                  + sum_list (map (\<lambda>i. sample_weight (closure sd ! i))
                       (other_bsdf_closures kt sd sampled))
          \<longrightarrow> p \<le> p'"
    unfolding p' using weighted_average_pdf_ge [of sd sampled kt p fns kg omega] by blast
  show ?thesis using ge by (simp add: res p')
qed

text \<open>Two diffuse closures with sample weights 1 and 3 and pdf 1 at the sampled
  direction: the second is chosen and the returned pdf is 1.\<close>

theorem shader_bsdf_sample_pdf_witness:
  "num_closure sample_sd_two_diffuse > 1
   \<and> bsdf_pick sample_kernel_types sample_sd_two_diffuse
        (randb_closure sample_sd_two_diffuse
           * bsdf_sample_weight_sum sample_kernel_types sample_sd_two_diffuse) 0 0 = 1
   \<and> bsdf_sample sample_fns sample_kg sample_sd_two_diffuse (closure sample_sd_two_diffuse ! 1)
        (1/3) (2/3) (omega_in sample_out) (domega_in sample_out)
       = (6, make_float3 1 1 1, make_float3 0 0 1, (), 1)
   \<and> weighted_average_pdf sample_fns sample_kernel_types sample_kg sample_sd_two_diffuse
        (make_float3 0 0 1) 1 1 = 1
   \<and> pdf (snd (shader_bsdf_sample sample_fns sample_kernel_types sample_kg sample_sd_two_diffuse
                  (1/3) (2/3) sample_out)) = 1
   \<and> 1 \<le> pdf (snd (shader_bsdf_sample sample_fns sample_kernel_types sample_kg
                  sample_sd_two_diffuse (1/3) (2/3) sample_out))"
proof -
  let ?kt = sample_kernel_types
  let ?sd = sample_sd_two_diffuse
  have n: "num_closure ?sd > 1"
    by (simp add: sample_sd_defs)
  have pick: "bsdf_pick ?kt ?sd (randb_closure ?sd * bsdf_sample_weight_sum ?kt ?sd) 0 0 = 1"
    by (simp add: bsdf_pick.simps bsdf_sample_weight_sum_def Let_def sample_sd_defs sample_defs
        eval_nat_numeral)
  have lt: "(1::nat) < num_closure ?sd"
    by (simp add: sample_sd_defs)
  have samp: "bsdf_sample sample_fns sample_kg ?sd (closure ?sd ! 1) (1/3) (2/3)
        (omega_in sample_out) (domega_in sample_out)
       = (6, make_float3 1 1 1, make_float3 0 0 1, (), 1)"
    by (simp add: sample_sd_defs)
  have os: "other_bsdf_closures ?kt ?sd 1 = [0]"
    by (simp add: other_bsdf_closures_def sample_sd_defs sample_defs eval_nat_numeral)
  have wa: "weighted_average_pdf sample_fns ?kt sample_kg ?sd (make_float3 0 0 1) 1 1 = 1"
    unfolding weighted_average_pdf_def Let_def os by (simp add: sample_sd_defs)
  have cond: "0 \<le> sample_weight (closure ?sd ! 1)
          \<and> (\<forall>i \<in> set (other_bsdf_closures ?kt ?sd 1).
                 0 \<le> sample_weight (closure ?sd ! i)
                 \<and> 1 \<le> snd (bsdf_eval sample_fns sample_kg ?sd (closure ?sd ! i) (make_float3 0 0 1)))
          \<and> 0 < sample_weight (closure ?sd ! 1)
                  + sum_list (map (\<lambda>i. sample_weight (closure ?sd ! i))
                       (other_bsdf_closures ?kt ?sd 1))"
    unfolding os by (simp add: sample_sd_defs)
  have nz: "(1::real) \<noteq> 0" by simp
  note t = shader_bsdf_sample_pdf [OF n pick lt samp nz]
  have one: "pdf (snd (shader_bsdf_sample sample_fns ?kt sample_kg ?sd (1/3) (2/3) sample_out)) = 1"
    using t wa by simp
  have ge: "1 \<le> pdf (snd (shader_bsdf_sample sample_fns ?kt sample_kg ?sd (1/3) (2/3) sample_out))"
    using t cond by simp
  from n pick samp wa one ge show ?thesis by blast
qed

text \<open>A diffuse and a glossy closure of sample weight 1 each, the glossy lobe with pdf 0
  at the direction sampled from the diffuse one: the single-closure pdf is 1 and the
  returned pdf is 1/2.\<close>

theorem shader_bsdf_sample_pdf_counterexample:
  "num_closure sample_sd_two_bsdf > 1
   \<and> CLOSURE_IS_BSDF sample_kernel_types (type (closure sample_sd_two_bsdf ! 0))
   \<and> CLOSURE_IS_BSDF sample_kernel_types (type (closure sample_sd_two_bsdf ! 1))
   \<and> bsdf_pick sample_kernel_types sample_sd_two_bsdf
        (randb_closure sample_sd_two_bsdf
           * bsdf_sample_weight_sum sample_kernel_types sample_sd_two_bsdf) 0 0 = 0
   \<and> bsdf_sample sample_fns sample_kg sample_sd_two_bsdf (closure sample_sd_two_bsdf ! 0)
        (1/3) (2/3) (omega_in sample_out) (domega_in sample_out)
       = (6, make_float3 1 1 1, make_float3 0 0 1, (), 1)
   \<and> shader_bsdf_sample sample_fns sample_kernel_types sample_kg sample_sd_two_bsdf
        (1/3) (2/3) sample_out
       = (6, \<lparr> bsdf_eval_out = make_float3 (1/2) (1/2) (1/2), omega_in = make_float3 0 0 1,
                domega_in = (), pdf = 1/2 \<rparr>)
   \<and> \<not> (1 \<le> pdf (snd (shader_bsdf_sample sample_fns sample_kernel_types sample_kg
                    sample_sd_two_bsdf (1/3) (2/3) sample_out)))"
proof -
  let ?kt = sample_kernel_types
  let ?sd = sample_sd_two_bsdf
  have pick: "bsdf_pick ?kt ?sd (randb_closure ?sd * bsdf_sample_weight_sum ?kt ?sd) 0 0 = 0"
    by (simp add: bsdf_pick.simps bsdf_sample_weight_sum_def Let_def sample_sd_defs sample_defs
        eval_nat_numeral)
  have res: "shader_bsdf_sample sample_fns ?kt sample_kg ?sd (1/3) (2/3) sample_out
       = (6, \<lparr> bsdf_eval_out = make_float3 (1/2) (1/2) (1/2), omega_in = make_float3 0 0 1,
                domega_in = (), pdf = 1/2 \<rparr>)"
    unfolding shader_bsdf_sample_def pick Let_def
    by (simp add: shader_bsdf_sample_chosen_def shader_bsdf_multi_eval_def
        multi_eval_step_def mul3_def Let_def sample_sd_defs sample_defs eval_nat_numeral)
  show ?thesis
    unfolding res pick by (simp add: sample_sd_defs sample_defs)
qed

section \<open>Merging closures\<close>

text \<open>The shift loop moves the entries behind \<open>closure[j]\<close> down by one; on the closures
  in use, a merge replaces entry \<open>i\<close> by the merged closure and removes entry \<open>j\<close>.\<close>

lemma merge_shift_length [simp]: "length (merge_shift cl j n) = length cl"
proof (induction n)
  case 0
  show ?case by (simp add: merge_shift_def)
next
  case (Suc n)
  then show ?case by (simp add: merge_shift_def)
qed



lemma merge_pair_num_closure [simp]:
  "num_closure (merge_pair i j sd) = num_closure sd - 1"
  by (simp add: merge_pair_def Let_def)

lemma merge_pair_length [simp]:
  "length (closure (merge_pair i j sd)) = length (closure sd)"
  by (simp add: merge_pair_def Let_def)


















text \<open>What the whole function keeps.\<close>

lemma merged_simps [simp]:
  "type (merged a b) = type a" "data (merged a b) = data a"
  "weight (merged a b) = add3 (weight a) (weight b)"
  "sample_weight (merged a b) = sample_weight a + sample_weight b"
  by (simp_all add: merged_def)

















section \<open>Missing images\<close>

subsection \<open>When the file load returns false\<close>

text \<open>\<open>file_load_image_generic\<close> returns false for an empty file name; for a file
  that does not exist, is a directory, has no \<open>ImageInput\<close> or cannot be opened; for
  a built-in image when the info or the pixels callback is not set; and for a number of
  components outside 1 to 4. An image with generated data is always opened.\<close>

lemma file_load_image_generic_None_iff:
  "file_load_image_generic env img = None \<longleftrightarrow>
     filename img = []
   \<or> (\<not> builtin_data img \<and> generated_data img = None \<and>
        (\<not> path_exists env (filename img) \<or> path_is_directory env (filename img)
         \<or> (case ImageInput_create env (filename img) of
               None \<Rightarrow> True
             | Some inp \<Rightarrow>
                 (case ImageInput_open env inp (filename img) (\<not> use_alpha img) of
                    None \<Rightarrow> True
                  | Some spec \<Rightarrow> \<not> (1 \<le> nchannels spec \<and> nchannels spec \<le> 4)))))
   \<or> (builtin_data img \<and> generated_data img = None \<and>
        (case builtin_image_info_cb env of
           None \<Rightarrow> True
         | Some info_cb \<Rightarrow>
             builtin_image_pixels_cb env = None
             \<or> \<not> (1 \<le> snd (snd (snd (info_cb (filename img))))
                   \<and> snd (snd (snd (info_cb (filename img)))) \<le> 4)))"
proof (cases "filename img = []")
  case True
  then show ?thesis by (simp add: file_load_image_generic_def)
next
  case name: False
  show ?thesis
  proof (cases "generated_data img")
    case (Some g)
    then show ?thesis using name
      by (simp add: file_load_image_generic_def split: prod.splits)
  next
    case None
    show ?thesis
    proof (cases "builtin_data img")
      case True
      then show ?thesis using name None
        by (simp add: file_load_image_generic_def split: option.splits prod.splits)
    next
      case False
      then show ?thesis using name None
        by (simp add: file_load_image_generic_def split: option.splits)
    qed
  qed
qed

text \<open>\<open>file_load_image\<close> returns false exactly when \<open>file_load_image_generic\<close>
  does, and then leaves the vector as it was.\<close>

lemma file_load_image_false_iff:
  "file_load_image env FileFormat img t limit tex_img = Inr (False, v)
     \<longleftrightarrow> file_load_image_generic env img = None \<and> v = tex_img"
  by (auto simp: file_load_image_def split: option.splits sum.splits)

text \<open>The truth value that \<open>read_image\<close> returns has no effect on what
  \<open>file_load_image\<close> returns: an environment in which it is replaced by any other
  gives the same result.\<close>

lemma file_load_image_read_result:
  "file_load_image (env\<lparr>read_image := (\<lambda>i f b. (ok i f b, snd (read_image env i f b)))\<rparr>)
      FileFormat img t limit tex_img
   = file_load_image env FileFormat img t limit tex_img"
proof -
  let ?env = "env\<lparr>read_image := (\<lambda>i f b. (ok i f b, snd (read_image env i f b)))\<rparr>"
  have sel: "path_exists ?env = path_exists env" "path_is_directory ?env = path_is_directory env"
    "ImageInput_create ?env = ImageInput_create env" "ImageInput_open ?env = ImageInput_open env"
    "builtin_image_info_cb ?env = builtin_image_info_cb env"
    "builtin_image_pixels_cb ?env = builtin_image_pixels_cb env"
    "builtin_image_float_pixels_cb ?env = builtin_image_float_pixels_cb env"
    "format_name ?env = format_name env" "uninitialized ?env = uninitialized env"
    "half_mul_div255 ?env = half_mul_div255 env"
    "util_image_resize_pixels ?env = util_image_resize_pixels env"
    "\<And>i f b. snd (read_image ?env i f b) = snd (read_image env i f b)"
    by simp_all
  have g: "file_load_image_generic ?env img = file_load_image_generic env img"
    unfolding file_load_image_generic_def sel ..
  have r: "\<And>c w h d v. device_vector_resize ?env c w h d v = device_vector_resize env c w h d v"
    unfolding device_vector_resize_def sel ..
  have l: "\<And>inp d c n p. load_pixels ?env FileFormat img inp d c n p
             = load_pixels env FileFormat img inp d c n p"
    unfolding load_pixels_def sel ..
  have m: "storage_mul_div255 ?env = storage_mul_div255 env"
    unfolding storage_mul_div255_def sel ..
  have c: "cmyk_pixel ?env = cmyk_pixel env"
    unfolding cmyk_pixel_def m ..
  have e: "expand_to_rgba ?env = expand_to_rgba env"
    unfolding expand_to_rgba_def c ..
  have p: "\<And>inp w h d c. file_load_image_pixels ?env FileFormat img t limit tex_img inp w h d c
             = file_load_image_pixels env FileFormat img t limit tex_img inp w h d c"
    unfolding file_load_image_pixels_def r l e sel ..
  show ?thesis
    unfolding file_load_image_def g p ..
qed

text \<open>For a built-in image in the format \<open>HALF\<close> or \<open>USHORT\<close> no pixel is read
  (lines 674-676): the buffer stays as it was.\<close>

lemma load_pixels_builtin_half:
  assumes "generated_data img = None"
    and "FileFormat = TypeDesc_HALF \<or> FileFormat = TypeDesc_USHORT"
  shows "load_pixels env FileFormat img None depth components num_pixels pixels = Inr pixels"
  using assms by (auto simp: load_pixels_def)

text \<open>The loop that halves the scale factor ends when the limit is positive, which it
  is where \<open>file_load_image\<close> reaches the loop; so \<open>file_load_image\<close> returns.\<close>

lemma scale_factor_loop_steps:
  "0 < limit \<Longrightarrow> real max_size * scale_factor \<le> real_of_int limit * 2 ^ n
     \<Longrightarrow> \<exists>r. scale_factor_loop max_size limit scale_factor = Some r"
proof (induction n arbitrary: scale_factor)
  case 0
  then show ?case by (subst scale_factor_loop.simps) simp
next
  case (Suc n)
  show ?case
  proof (cases "real max_size * scale_factor > real_of_int limit")
    case True
    have "real max_size * (scale_factor * 0.5) \<le> real_of_int limit * 2 ^ n"
      using Suc.prems(2) by simp
    from Suc.IH [OF Suc.prems(1) this] show ?thesis
      using True by (subst scale_factor_loop.simps) simp
  next
    case False
    then show ?thesis by (subst scale_factor_loop.simps) simp
  qed
qed

lemma scale_factor_loop_returns:
  assumes "0 < limit"
  shows "\<exists>r. scale_factor_loop max_size limit scale_factor = Some r"
proof -
  obtain n where "real max_size * scale_factor / real_of_int limit < 2 ^ n"
    using real_arch_pow [of 2 "real max_size * scale_factor / real_of_int limit"] by auto
  then have "real max_size * scale_factor \<le> real_of_int limit * 2 ^ n"
    using assms by (simp add: field_simps)
  with assms show ?thesis by (rule scale_factor_loop_steps)
qed

lemma load_pixels_error:
  "load_pixels env FileFormat img inp depth components num_pixels pixels = Inl e
     \<Longrightarrow> e = EmptyCallback"
  by (auto simp: load_pixels_def split: option.splits prod.splits if_splits)

lemma file_load_image_pixels_returns:
  "file_load_image_pixels env FileFormat img t limit tex_img inp width height depth components
     \<noteq> Inl NoReturn"
proof (cases "0 < limit \<and> limit < int (max (max width height) depth)")
  case True
  then have u: "(0 < limit \<and> limit < int (max (max width height) depth)) = True" by simp
  from True have "0 < limit" by simp
  from scale_factor_loop_returns [OF this]
  obtain r where r: "scale_factor_loop (max (max width height) depth) limit 1 = Some r" by blast
  show ?thesis
  proof (cases "load_pixels env FileFormat img inp depth components (width * height * depth)
                  (replicate (width * height * depth * 4) 0)")
    case (Inl e)
    then have "e = EmptyCallback" by (rule load_pixels_error)
    with Inl show ?thesis
      by (simp add: file_load_image_pixels_def Let_def u)
  next
    case (Inr pixels)
    with r show ?thesis
      by (simp add: file_load_image_pixels_def Let_def u split: prod.splits)
  qed
next
  case False
  then have u: "(0 < limit \<and> limit < int (max (max width height) depth)) = False" by simp
  show ?thesis
  proof (cases "load_pixels env FileFormat img inp depth components (width * height * depth)
                  (vdata (device_vector_resize env (element_channels t) width height depth tex_img))")
    case (Inl e)
    then have "e = EmptyCallback" by (rule load_pixels_error)
    with Inl show ?thesis
      by (simp add: file_load_image_pixels_def Let_def u)
  next
    case (Inr pixels)
    then show ?thesis
      by (simp add: file_load_image_pixels_def Let_def u)
  qed
qed

lemma file_load_image_returns:
  "file_load_image env FileFormat img t limit tex_img \<noteq> Inl NoReturn"
  using file_load_image_pixels_returns [of env FileFormat img t limit tex_img]
  by (auto simp: file_load_image_def split: option.splits sum.splits)

subsection \<open>The substitute\<close>

lemma upt4: "[0..<4] = [0, 1, 2, 3]" by (simp add: upt_rec)

lemma upt8: "[0..<8] = [0, 1, 2, 3, 4, 5, 6, 7]" by (simp add: upt_rec)

text \<open>\<open>missing_image\<close> writes the missing-texture colour into a 1x1 image when the
  conversions are defined, and fails otherwise.\<close>

lemma missing_image_fits:
  assumes "missing_colour_fits env t"
  shows "missing_image env t v =
           Inr (v\<lparr>vdata := missing_colour env t, data_width := 1, data_height := 1,
                  data_depth := 0\<rparr>)"
  using assms
  by (cases t)
     (simp_all add: missing_image_def missing_colour_fits_def missing_colour_def Let_def
        device_vector_resize_def element_channels_def store4_def store1_def
        float_to_unsigned_def upt4)

lemma missing_image_unfit:
  assumes "\<not> missing_colour_fits env t"
  shows "missing_image env t v = Inl UndefinedConversion"
  using assms
  by (cases t)
     (auto simp: missing_image_def missing_colour_fits_def Let_def
        store4_def store1_def float_to_unsigned_def)

text \<open>In the sample environment the image of \<open>stone.png\<close> is opened, its read fails,
  and \<open>file_load_image\<close> returns true with the 2x1 image that the storage happened to
  hold.\<close>

lemma sample_unread_image_opens:
  "file_load_image_generic sample_image_env sample_unread_image = Some (Some 0, 2, 1, 1, 4)"
  by (simp add: file_load_image_generic_def sample_image_defs)

lemma sample_unread_image_pixels:
  "file_load_image_pixels sample_image_env TypeDesc_FLOAT sample_unread_image
     IMAGE_DATA_TYPE_FLOAT4 0
     \<lparr>vdata = [], data_width = 0, data_height = 0, data_depth = 0, device_pointer = False\<rparr>
     (Some 0) 2 1 1 4
   = Inr \<lparr>vdata = [1 / 2, 1 / 2, 1 / 2, 1 / 2, 1 / 2, 1 / 2, 1 / 2, 1 / 2],
          data_width = 2, data_height = 1, data_depth = 1, device_pointer = False\<rparr>"
  by (simp add: file_load_image_pixels_def Let_def
      load_pixels_def overwrite_def expand_to_rgba_def device_vector_resize_def
      element_channels_def sample_image_env_def sample_unread_image_def upt8)

lemma sample_unread_image_loads:
  "file_load_image sample_image_env TypeDesc_FLOAT sample_unread_image IMAGE_DATA_TYPE_FLOAT4 0
     \<lparr>vdata = [], data_width = 0, data_height = 0, data_depth = 0, device_pointer = False\<rparr>
   = Inr (True, \<lparr>vdata = [1 / 2, 1 / 2, 1 / 2, 1 / 2, 1 / 2, 1 / 2, 1 / 2, 1 / 2],
                 data_width = 2, data_height = 1, data_depth = 1, device_pointer = False\<rparr>)"
  unfolding file_load_image_def sample_unread_image_opens
  by (simp only: option.case prod.case sample_unread_image_pixels sum.case)

text \<open>
  C8. When \<open>device_load_image\<close> is not cancelled, finds the image, does not leave it to
  the OIIO texture system, finds \<open>slot\<close> inside the device scene's array for the type,
  and \<open>file_load_image_generic\<close> does not open the image, so that \<open>file_load_image\<close>
  returns false, then it returns normally with a 1x1 image in that array whose pixel is
  the missing-texture colour: the four constants as they are for the four-channel float
  type, the red constant as it is for the one-channel float type, and for the other
  types the constants in the element type as the branch of the type converts them
  (times 255 in a byte, times 65535 in an unsigned short, in a half; the red one alone for
  the one-channel types), provided those conversions are defined. The texture is bound
  on the device under the image's name when \<open>pack_images\<close> is off; when it is on, the
  device's textures stay as they were.
\<close>

theorem device_load_image_missing:
  assumes nc: "\<not> cancel st"
    and img: "slot < length (images st t)" "images st t ! slot = Some img"
    and no_oiio: "\<not> (oiio_texture_system st \<and> \<not> builtin_data img)"
    and room: "slot < length (tex_image st t)"
    and fail: "file_load_image_generic env img = None"
    and fits: "missing_colour_fits env t"
  shows "\<exists>st' v. device_load_image env empty_texture t slot st = Inr st'
           \<and> tex_image st' t ! slot = Some v
           \<and> vdata v = missing_colour env t \<and> data_width v = 1 \<and> data_height v = 1
           \<and> (t = IMAGE_DATA_TYPE_FLOAT4 \<longrightarrow>
                 vdata v = [TEX_IMAGE_MISSING_R env, TEX_IMAGE_MISSING_G env,
                            TEX_IMAGE_MISSING_B env, TEX_IMAGE_MISSING_A env])
           \<and> (t = IMAGE_DATA_TYPE_FLOAT \<longrightarrow> vdata v = [TEX_IMAGE_MISSING_R env])
           \<and> (\<not> pack_images st \<longrightarrow>
                 kernel_textures st' (texture_name env st t slot) =
                   Some \<lparr>tex_data = missing_colour env t, tex_width = 1, tex_height = 1,
                         tex_depth = 0, tex_interpolation = interpolation img,
                         tex_extension = extension img\<rparr>)
           \<and> (pack_images st \<longrightarrow> kernel_textures st' = kernel_textures st)"
proof -
  have typed: "device_load_image env empty_texture t slot st = device_load_image_typed env st t slot img"
    using nc img no_oiio by (auto simp: device_load_image_def)
  have load: "\<And>v. file_load_image env (file_format t) img t (texture_limit env) v = Inr (False, v)"
    using fail by (simp add: file_load_image_def)
  note miss = missing_image_fits [OF fits]
  have c4: "t = IMAGE_DATA_TYPE_FLOAT4 \<Longrightarrow>
      missing_colour env t = [TEX_IMAGE_MISSING_R env, TEX_IMAGE_MISSING_G env,
                            TEX_IMAGE_MISSING_B env, TEX_IMAGE_MISSING_A env]"
    by (simp add: missing_colour_def)
  have c1: "t = IMAGE_DATA_TYPE_FLOAT \<Longrightarrow> missing_colour env t = [TEX_IMAGE_MISSING_R env]"
    by (simp add: missing_colour_def)
  show ?thesis
  proof (cases "pack_images st")
    case True
    then show ?thesis
      unfolding typed using room c4 c1
      by (simp add: device_load_image_typed_def Let_def set_image_def load miss
          tex_free_def split: option.splits)
  next
    case False
    then show ?thesis
      unfolding typed using room c4 c1
      by (simp add: device_load_image_typed_def Let_def set_image_def load miss
          tex_free_def tex_alloc_def split: option.splits)
  qed
qed

text \<open>A four-channel float image whose file does not exist: the vector holds
  (1, 0, 1, 1) and the texture \<open>float4\<close> of flat slot 0 is bound to it.\<close>

theorem device_load_image_missing_witness:
  "\<not> cancel sample_image_state
   \<and> images sample_image_state IMAGE_DATA_TYPE_FLOAT4 ! 0 = Some sample_image
   \<and> file_load_image_generic sample_image_env sample_image = None
   \<and> missing_colour_fits sample_image_env IMAGE_DATA_TYPE_FLOAT4
   \<and> \<not> pack_images sample_image_state
   \<and> \<not> isl (device_load_image sample_image_env sample_empty_texture IMAGE_DATA_TYPE_FLOAT4 0
               sample_image_state)
   \<and> map_option vdata
        (tex_image (projr (device_load_image sample_image_env sample_empty_texture
                     IMAGE_DATA_TYPE_FLOAT4 0 sample_image_state)) IMAGE_DATA_TYPE_FLOAT4 ! 0)
       = Some [1, 0, 1, 1]
   \<and> kernel_textures (projr (device_load_image sample_image_env sample_empty_texture
                        IMAGE_DATA_TYPE_FLOAT4 0 sample_image_state)) (''float4'', 0)
       = Some \<lparr>tex_data = [1, 0, 1, 1], tex_width = 1, tex_height = 1, tex_depth = 0,
               tex_interpolation = INTERPOLATION_LINEAR, tex_extension = EXTENSION_REPEAT\<rparr>"
proof -
  let ?st = sample_image_state
  let ?t = IMAGE_DATA_TYPE_FLOAT4
  have nc: "\<not> cancel ?st" by (simp add: sample_image_defs)
  have len: "0 < length (images ?st ?t)" by (simp add: sample_image_defs)
  have img: "images ?st ?t ! 0 = Some sample_image" by (simp add: sample_image_defs)
  have no_oiio: "\<not> (oiio_texture_system ?st \<and> \<not> builtin_data sample_image)"
    by (simp add: sample_image_defs)
  have room: "0 < length (tex_image ?st ?t)" by (simp add: sample_image_defs)
  have fail: "file_load_image_generic sample_image_env sample_image = None"
    by (simp add: file_load_image_generic_def sample_image_defs)
  have fits: "missing_colour_fits sample_image_env ?t"
    by (simp add: missing_colour_fits_def)
  have np: "\<not> pack_images ?st" by (simp add: sample_image_defs)
  have px: "missing_colour sample_image_env ?t = [1, 0, 1, 1]"
    by (simp add: missing_colour_def sample_image_defs)
  have nm: "texture_name sample_image_env ?st ?t 0 = (''float4'', 0)"
    by (simp add: texture_name_def name_from_type_def type_index_to_flattened_slot_def
        sample_image_defs)
  from device_load_image_missing [OF nc len img no_oiio room fail fits, of sample_empty_texture]
  obtain st' v where r: "device_load_image sample_image_env sample_empty_texture ?t 0 ?st = Inr st'"
    and v: "tex_image st' ?t ! 0 = Some v" "vdata v = missing_colour sample_image_env ?t"
    and k: "\<not> pack_images ?st \<longrightarrow>
                 kernel_textures st' (texture_name sample_image_env ?st ?t 0) =
                   Some \<lparr>tex_data = missing_colour sample_image_env ?t, tex_width = 1, tex_height = 1,
                         tex_depth = 0, tex_interpolation = interpolation sample_image,
                         tex_extension = extension sample_image\<rparr>"
    by blast
  have k': "kernel_textures st' (''float4'', 0) =
       Some \<lparr>tex_data = [1, 0, 1, 1], tex_width = 1, tex_height = 1, tex_depth = 0,
               tex_interpolation = INTERPOLATION_LINEAR, tex_extension = EXTENSION_REPEAT\<rparr>"
    using k np unfolding px nm by (simp add: sample_image_def)
  have v': "map_option vdata (tex_image st' ?t ! 0) = Some [1, 0, 1, 1]"
    using v px by simp
  show ?thesis
    unfolding r using nc img np v' k' fail fits by simp
qed

text \<open>The same image among the one-channel float images, where the device scene's array
  has no entry for the slot: the function returns without an image and without a bound
  texture. Among the four-channel float images with \<open>pack_images\<close> on: no texture
  is bound. And the image of \<open>stone.png\<close>, whose pixels cannot be read: the texture
  \<open>float4\<close> of flat slot 8 is bound to the 2x1 image that the storage held, not to a
  1x1 image of the missing-texture colour.\<close>

theorem device_load_image_missing_counterexample:
  "\<not> cancel sample_image_state
   \<and> images sample_image_state IMAGE_DATA_TYPE_FLOAT ! 0 = Some sample_image
   \<and> images sample_image_state IMAGE_DATA_TYPE_FLOAT4 ! 0 = Some sample_image
   \<and> images sample_image_state IMAGE_DATA_TYPE_FLOAT4 ! 1 = Some sample_unread_image
   \<and> file_load_image_generic sample_image_env sample_image = None
   \<and> \<not> isl (device_load_image sample_image_env sample_empty_texture IMAGE_DATA_TYPE_FLOAT 0
               sample_image_state)
   \<and> tex_image (projr (device_load_image sample_image_env sample_empty_texture
                   IMAGE_DATA_TYPE_FLOAT 0 sample_image_state)) IMAGE_DATA_TYPE_FLOAT = []
   \<and> kernel_textures (projr (device_load_image sample_image_env sample_empty_texture
                        IMAGE_DATA_TYPE_FLOAT 0 sample_image_state))
        (texture_name sample_image_env sample_image_state IMAGE_DATA_TYPE_FLOAT 0) = None
   \<and> \<not> isl (device_load_image sample_image_env sample_empty_texture IMAGE_DATA_TYPE_FLOAT4 0
               (sample_image_state\<lparr>pack_images := True\<rparr>))
   \<and> kernel_textures (projr (device_load_image sample_image_env sample_empty_texture
                        IMAGE_DATA_TYPE_FLOAT4 0 (sample_image_state\<lparr>pack_images := True\<rparr>)))
        (texture_name sample_image_env sample_image_state IMAGE_DATA_TYPE_FLOAT4 0) = None
   \<and> fst (read_image sample_image_env 0 TypeDesc_FLOAT True) = False
   \<and> \<not> isl (device_load_image sample_image_env sample_empty_texture IMAGE_DATA_TYPE_FLOAT4 1
               sample_image_state)
   \<and> kernel_textures (projr (device_load_image sample_image_env sample_empty_texture
                        IMAGE_DATA_TYPE_FLOAT4 1 sample_image_state)) (''float4'', 8)
       = Some \<lparr>tex_data = [1 / 2, 1 / 2, 1 / 2, 1 / 2, 1 / 2, 1 / 2, 1 / 2, 1 / 2],
               tex_width = 2, tex_height = 1, tex_depth = 1,
               tex_interpolation = INTERPOLATION_LINEAR, tex_extension = EXTENSION_REPEAT\<rparr>"
proof -
  let ?st = sample_image_state
  let ?env = sample_image_env
  let ?e = sample_empty_texture
  have fail: "file_load_image_generic ?env sample_image = None"
    by (simp add: file_load_image_generic_def sample_image_defs)
  have load0: "\<And>f t limit v. file_load_image ?env f sample_image t limit v = Inr (False, v)"
    by (simp add: file_load_image_def fail)
  have a: "device_load_image ?env ?e IMAGE_DATA_TYPE_FLOAT 0 ?st = Inr ?st"
    by (simp add: device_load_image_def device_load_image_typed_def sample_image_state_def
        sample_image_def)
  have st0: "\<not> cancel ?st" "0 < length (images ?st IMAGE_DATA_TYPE_FLOAT4)"
      "images ?st IMAGE_DATA_TYPE_FLOAT4 ! 0 = Some sample_image"
      "\<not> oiio_texture_system ?st"
      "tex_image ?st IMAGE_DATA_TYPE_FLOAT4 = [None, None]"
      "kernel_textures ?st = (\<lambda>name. None)"
    by (simp_all add: sample_image_state_def)
  have b: "kernel_textures (projr (device_load_image ?env ?e IMAGE_DATA_TYPE_FLOAT4 0
              (?st\<lparr>pack_images := True\<rparr>))) = (\<lambda>name. None)
           \<and> \<not> isl (device_load_image ?env ?e IMAGE_DATA_TYPE_FLOAT4 0 (?st\<lparr>pack_images := True\<rparr>))"
    using st0
    by (simp add: device_load_image_def device_load_image_typed_def Let_def load0
        missing_image_fits missing_colour_fits_def set_image_def)
  have nm: "texture_name ?env ?st IMAGE_DATA_TYPE_FLOAT4 1 = (''float4'', 8)"
    by (simp add: texture_name_def name_from_type_def type_index_to_flattened_slot_def
        sample_image_defs)
  have c: "\<not> isl (device_load_image ?env ?e IMAGE_DATA_TYPE_FLOAT4 1 ?st)
     \<and> kernel_textures (projr (device_load_image ?env ?e IMAGE_DATA_TYPE_FLOAT4 1 ?st))
          (''float4'', 8)
       = Some \<lparr>tex_data = [1 / 2, 1 / 2, 1 / 2, 1 / 2, 1 / 2, 1 / 2, 1 / 2, 1 / 2],
               tex_width = 2, tex_height = 1, tex_depth = 1,
               tex_interpolation = INTERPOLATION_LINEAR, tex_extension = EXTENSION_REPEAT\<rparr>"
  proof -
    have lim: "texture_limit ?env = 0" by (simp add: sample_image_env_def)
    have nm': "texture_name ?env ?st IMAGE_DATA_TYPE_FLOAT4 (Suc 0) = (''float4'', 8)"
      using nm by simp
    have st: "\<not> cancel ?st" "1 < length (images ?st IMAGE_DATA_TYPE_FLOAT4)"
      "images ?st IMAGE_DATA_TYPE_FLOAT4 ! 1 = Some sample_unread_image"
      "\<not> oiio_texture_system ?st" "\<not> pack_images ?st"
      "tex_image ?st IMAGE_DATA_TYPE_FLOAT4 = [None, None]"
      "kernel_textures ?st = (\<lambda>name. None)"
      by (simp_all add: sample_image_state_def)
    have u: "interpolation sample_unread_image = INTERPOLATION_LINEAR"
      "extension sample_unread_image = EXTENSION_REPEAT"
      by (simp_all add: sample_unread_image_def)
    show ?thesis
      using st
      by (simp add: device_load_image_def device_load_image_typed_def Let_def file_format_def
          lim sample_unread_image_loads nm' tex_alloc_def set_image_def u)
  qed
  have d: "fst (read_image ?env 0 TypeDesc_FLOAT True) = False"
    by (simp add: sample_image_env_def)
  have e: "images ?st IMAGE_DATA_TYPE_FLOAT ! 0 = Some sample_image"
    "images ?st IMAGE_DATA_TYPE_FLOAT4 ! 0 = Some sample_image"
    "images ?st IMAGE_DATA_TYPE_FLOAT4 ! 1 = Some sample_unread_image"
    "\<not> cancel ?st"
    by (simp_all add: sample_image_state_def)
  have f: "tex_image ?st IMAGE_DATA_TYPE_FLOAT = []" "kernel_textures ?st = (\<lambda>name. None)"
    by (simp_all add: sample_image_state_def)
  show ?thesis
    unfolding a using b c d e f fail by simp
qed

text \<open>The same missing file among the four-channel byte images: the vector holds
  (255, 0, 255, 255).\<close>

lemma missing_byte4_image_example:
  "map_option vdata
     (tex_image (projr (device_load_image sample_image_env sample_empty_texture
                  IMAGE_DATA_TYPE_BYTE4 0 sample_image_state)) IMAGE_DATA_TYPE_BYTE4 ! 0)
   = Some [255, 0, 255, 255]"
proof -
  have fail: "file_load_image_generic sample_image_env sample_image = None"
    by (simp add: file_load_image_generic_def sample_image_defs)
  have load0: "\<And>f t limit v. file_load_image sample_image_env f sample_image t limit v = Inr (False, v)"
    by (simp add: file_load_image_def fail)
  have fits: "missing_colour_fits sample_image_env IMAGE_DATA_TYPE_BYTE4"
    by (simp add: missing_colour_fits_def sample_image_env_def)
  have col: "missing_colour sample_image_env IMAGE_DATA_TYPE_BYTE4 = [255, 0, 255, 255]"
    by (simp add: missing_colour_def integral_part_def sample_image_env_def)
  have st: "\<not> cancel sample_image_state" "0 < length (images sample_image_state IMAGE_DATA_TYPE_BYTE4)"
      "images sample_image_state IMAGE_DATA_TYPE_BYTE4 ! 0 = Some sample_image"
      "\<not> oiio_texture_system sample_image_state" "\<not> pack_images sample_image_state"
      "tex_image sample_image_state IMAGE_DATA_TYPE_BYTE4 = [None]"
    by (simp_all add: sample_image_state_def)
  show ?thesis
    using st
    by (simp add: device_load_image_def device_load_image_typed_def Let_def load0
        missing_image_fits [OF fits] col set_image_def tex_alloc_def)
qed
section \<open>Splitting tasks\<close>

lemma fold_task_pool_push:
  "fold task_pool_push tasks dev = dev\<lparr>task_pool := task_pool dev @ tasks\<rparr>"
  by (induction tasks arbitrary: dev) (simp_all add: task_pool_push_def)

lemma split_range_le:
  assumes "0 < num" "len \<le> num * cap"
  shows "snd (split_range start len num i) \<le> cap"
proof -
  have "int (Suc i) * len = int i * len + len" by (simp add: algebra_simps)
  also have "\<dots> \<le> int i * len + cap * num" using assms(2) by (simp add: mult.commute)
  finally have "(int (Suc i) * len) div num \<le> (int i * len + cap * num) div num"
    using assms(1) by (intro zdiv_mono1) simp_all
  also have "\<dots> = (int i * len) div num + cap"
    using assms(1) by simp
  finally show ?thesis by (simp add: split_range_def)
qed

lemma shader_count_covers:
  fixes len c num :: int
  assumes "0 < c"
  shows "len \<le> max num ((len + c - 1) div c) * c"
proof -
  have "len \<le> ((len + c - 1) div c) * c"
  proof -
    have "len + c - 1 = ((len + c - 1) div c) * c + (len + c - 1) mod c" by simp
    moreover have "(len + c - 1) mod c \<le> c - 1"
      using assms pos_mod_bound [of c "len + c - 1"] by simp
    ultimately show ?thesis by linarith
  qed
  also have "\<dots> \<le> max num ((len + c - 1) div c) * c"
    using assms by (intro mult_right_mono) simp_all
  finally show ?thesis .
qed


lemma split_length:
  "length (split task num max_size) = nat (get_subtask_count task num max_size)"
  by (simp add: split_def Let_def)

lemma split_shader_capped:
  assumes sh: "task_type task = SHADER" and c: "0 < c" and s: "sub \<in> set (split task num c)"
  shows "shader_w sub \<le> c \<and> task_type sub = SHADER"
proof -
  let ?n = "get_subtask_count task num c"
  from s obtain i where i: "i < nat ?n"
    and sub: "sub = (case split_range (shader_x task) (shader_w task) ?n i of
                       (tx, tw) \<Rightarrow> task\<lparr>shader_x := tx, shader_w := tw\<rparr>)"
    using sh by (auto simp: split_def Let_def)
  have n: "?n = max num ((shader_w task + c - 1) div c)"
    using sh c by (simp add: get_subtask_count_def)
  have pos: "0 < ?n" using i by simp
  have "shader_w task \<le> ?n * c" unfolding n using c by (rule shader_count_covers)
  with pos have "snd (split_range (shader_x task) (shader_w task) ?n i) \<le> c"
    by (rule split_range_le)
  then show ?thesis using sub sh by (simp add: split_beta)
qed

text \<open>
  C9. \<open>task_add\<close> appends to the pool exactly the sub-tasks that \<open>split\<close> returns,
  one entry each and in their order, with the cap 256 for a shader task and without a
  cap otherwise; their number is \<open>get_split_task_count\<close>. The sub-tasks of a shader
  task are shader tasks of at most 256 pixels each; a task of another type gets as many
  sub-tasks as there are worker threads.
\<close>

theorem task_add_split:
  "task_pool (task_add task dev) =
     task_pool dev @ split task (num_threads dev) (if task_type task = SHADER then 256 else 0)
   \<and> num_threads (task_add task dev) = num_threads dev
   \<and> int (length (task_pool (task_add task dev))) =
       int (length (task_pool dev)) + max 0 (get_split_task_count dev task)
   \<and> (task_type task = SHADER \<longrightarrow>
        (\<forall>sub \<in> set (drop (length (task_pool dev)) (task_pool (task_add task dev))).
            shader_w sub \<le> 256 \<and> task_type sub = SHADER))
   \<and> (task_type task \<noteq> SHADER \<longrightarrow>
        length (task_pool (task_add task dev)) = length (task_pool dev) + nat (num_threads dev)
        \<and> get_split_task_count dev task = num_threads dev)"
proof -
  have pool: "task_pool (task_add task dev) =
     task_pool dev @ split task (num_threads dev) (if task_type task = SHADER then 256 else 0)"
    by (simp add: task_add_def fold_task_pool_push Let_def)
  have nt: "num_threads (task_add task dev) = num_threads dev"
    by (simp add: task_add_def fold_task_pool_push Let_def)
  have len: "int (length (task_pool (task_add task dev))) =
       int (length (task_pool dev)) + max 0 (get_split_task_count dev task)"
    unfolding pool by (simp add: split_length get_split_task_count_def)
  have cap: "task_type task = SHADER \<longrightarrow>
        (\<forall>sub \<in> set (drop (length (task_pool dev)) (task_pool (task_add task dev))).
            shader_w sub \<le> 256 \<and> task_type sub = SHADER)"
    unfolding pool using split_shader_capped [of task 256 _ "num_threads dev"] by simp
  have other: "task_type task \<noteq> SHADER \<longrightarrow>
        length (task_pool (task_add task dev)) = length (task_pool dev) + nat (num_threads dev)
        \<and> get_split_task_count dev task = num_threads dev"
    unfolding pool by (simp add: split_length get_split_task_count_def get_subtask_count_def)
  from pool nt len cap other show ?thesis by blast
qed

text \<open>With three threads, a shader task of 1000 pixels becomes four sub-tasks of 250
  pixels and a film conversion becomes three sub-tasks.\<close>

theorem task_add_split_witness:
  "task_type sample_shader_task = SHADER
   \<and> map shader_w (drop (length (task_pool sample_device))
                      (task_pool (task_add sample_shader_task sample_device)))
       = [250, 250, 250, 250]
   \<and> list_all (\<lambda>sub. shader_w sub \<le> 256 \<and> task_type sub = SHADER)
        (drop (length (task_pool sample_device))
           (task_pool (task_add sample_shader_task sample_device)))
   \<and> task_type sample_film_task \<noteq> SHADER
   \<and> num_threads sample_device = 3
   \<and> length (task_pool (task_add sample_film_task sample_device)) = length (task_pool sample_device) + 3"
proof -
  have sh: "task_type sample_shader_task = SHADER" by (simp add: sample_task_defs)
  have fc: "task_type sample_film_task \<noteq> SHADER" by (simp add: sample_task_defs)
  have nt: "num_threads sample_device = 3" by (simp add: sample_task_defs)
  note s = task_add_split [of sample_shader_task sample_device]
  note f = task_add_split [of sample_film_task sample_device]
  have sp: "split sample_shader_task (num_threads sample_device) 256 =
      map (\<lambda>x. sample_shader_task\<lparr>shader_x := x, shader_w := 250\<rparr>) [0, 250, 500, 750]"
    by (simp add: split_def get_subtask_count_def split_range_def Let_def sample_task_defs
        eval_nat_numeral upt_rec)
  have pool: "task_pool (task_add sample_shader_task sample_device) =
      task_pool sample_device @ split sample_shader_task (num_threads sample_device) 256"
    using s sh by simp
  have ws: "map shader_w (drop (length (task_pool sample_device))
                      (task_pool (task_add sample_shader_task sample_device)))
       = [250, 250, 250, 250]"
    unfolding pool sp by simp
  have "\<forall>sub \<in> set (drop (length (task_pool sample_device))
                      (task_pool (task_add sample_shader_task sample_device))).
            shader_w sub \<le> 256 \<and> task_type sub = SHADER"
    using s sh by blast
  then have cap: "list_all (\<lambda>sub. shader_w sub \<le> 256 \<and> task_type sub = SHADER)
        (drop (length (task_pool sample_device))
           (task_pool (task_add sample_shader_task sample_device)))"
    by (simp add: list_all_iff)
  have "length (task_pool (task_add sample_film_task sample_device)) =
          length (task_pool sample_device) + nat (num_threads sample_device)"
    using f fc by blast
  then have n: "length (task_pool (task_add sample_film_task sample_device)) =
          length (task_pool sample_device) + 3"
    using nt by simp
  from sh ws cap fc nt n show ?thesis by blast
qed

end
